theory Spec2Isabelle
  imports Complex_Main
begin

section \<open>Python values shared by the embedded functions\<close>

text \<open>
  Exceptions are values. \<open>LibraryError\<close> stands for whatever an external library
  (requests, zipfile, json, h5py, spglib) raises; the other constructors are the
  built-in exceptions the embedded code itself can run into.
\<close>

datatype pyerror =
    ValueError string
  | NameError string
  | UnboundLocalError string
  | IndexError
  | KeyError string
  | TypeError
  | ZeroDivisionError
  | FileNotFoundError string
  | ImportError string
  | GenericException string
  | LibraryError string

text \<open>
  The outside world the download code acts on: the files on disk (path to content),
  the URLs fetched so far, in order, the lines printed, and the commands handed to
  the shell.
\<close>

record world =
  files :: "string \<rightharpoonup> string"
  http_log :: "string list"
  stdout :: "string list"
  shell_calls :: "string list"

text \<open>
  What the external libraries compute, taken as parameters: the body a GET of a URL
  answers with, the members (name, content) of a zip archive given by its bytes, the
  JSON decoder, and the directory of the module file (\<open>os.path.dirname(__file__)\<close>).
\<close>

record 'j env =
  http_response :: "string \<Rightarrow> pyerror + string"
  zip_members :: "string \<Rightarrow> pyerror + (string \<times> string) list"
  json_loads :: "string \<Rightarrow> pyerror + 'j"
  module_dir :: string

definition requests_get :: "'j env \<Rightarrow> world \<Rightarrow> string \<Rightarrow> world \<times> (pyerror + string)" where
  "requests_get e w u = (w\<lparr>http_log := http_log w @ [u]\<rparr>, http_response e u)"

definition print :: "world \<Rightarrow> string \<Rightarrow> world" where
  "print w s = w\<lparr>stdout := stdout w @ [s]\<rparr>"

section \<open>Python strings and lists\<close>

text \<open>The double-quote character, and \<open>sep.join(xs)\<close>.\<close>

definition dq :: char where
  "dq = CHR 0x22"

fun join :: "string \<Rightarrow> string list \<Rightarrow> string" where
  "join sep [] = []"
| "join sep [x] = x"
| "join sep (x # y # ys) = x @ sep @ join sep (y # ys)"

text \<open>\<open>str\<close> of an integer: decimal digits, with a minus sign below zero.\<close>

definition digit :: "nat \<Rightarrow> char" where
  "digit d = ''0123456789'' ! d"

fun str_nat :: "nat \<Rightarrow> string" where
  "str_nat n = (if n < 10 then [digit n] else str_nat (n div 10) @ [digit (n mod 10)])"

definition str_int :: "int \<Rightarrow> string" where
  "str_int i = (if i < 0 then CHR ''-'' # str_nat (nat (- i)) else str_nat (nat i))"

text \<open>\<open>np.unique\<close> of a one-dimensional array: its distinct values in ascending order.\<close>

definition np_unique :: "int list \<Rightarrow> int list" where
  "np_unique xs = sort (remdups xs)"

text \<open>
  Indexing a one-dimensional array or list with a Python integer: a negative index
  counts from the end, and an index outside the array raises.
\<close>

definition np_index :: "'a list \<Rightarrow> int \<Rightarrow> pyerror + 'a" where
  "np_index xs i =
     (if 0 \<le> i \<and> i < int (length xs) then Inr (xs ! nat i)
      else if i < 0 \<and> - int (length xs) \<le> i then Inr (xs ! nat (int (length xs) + i))
      else Inl IndexError)"

text \<open>Running a fallible function over a list, stopping at the first exception.\<close>

fun emap :: "('a \<Rightarrow> pyerror + 'b) \<Rightarrow> 'a list \<Rightarrow> pyerror + 'b list" where
  "emap f [] = Inr []"
| "emap f (x # xs) =
     (case f x of
        Inl err \<Rightarrow> Inl err
      | Inr y \<Rightarrow> (case emap f xs of Inl err \<Rightarrow> Inl err | Inr ys \<Rightarrow> Inr (y # ys)))"

text \<open>
  \<open>d[k]\<close> on a dict: a missing key raises KeyError, which shows the key
  (\<open>shown\<close>).
\<close>

definition dict_get :: "('k \<rightharpoonup> 'v) \<Rightarrow> 'k \<Rightarrow> string \<Rightarrow> pyerror + 'v" where
  "dict_get d k shown = (case d k of None \<Rightarrow> Inl (KeyError shown) | Some v \<Rightarrow> Inr v)"

declare str_nat.simps [simp del]

section \<open>figshare.py: datasets\<close>

text \<open>
  The local variables of \<open>datasets\<close> that its last line reads. \<open>None\<close> is a
  variable no branch has assigned. \<open>discarded\<close> holds the value of the expression
  statement of the final \<open>else\<close> branch, which builds an exception object and drops it.
\<close>

record ds_locals =
  url :: "string option"
  js_tag :: "string option"
  discarded :: "pyerror option"

definition ds_assign :: "world \<Rightarrow> string \<Rightarrow> string \<Rightarrow> string \<Rightarrow> world \<times> (pyerror + ds_locals)" where
  "ds_assign w u t msg =
     (print w msg, Inr \<lparr>url = Some u, js_tag = Some t, discarded = None\<rparr>)"

text \<open>
  The \<open>stm_2d\<close> branch: two GETs, the archive opened between them, the JSON decoded,
  then a loop over the archive's names whose first statement reads \<open>mpimg\<close>, a name the
  module never binds. With no name in the archive the loop body never runs and the
  branch falls through to its print. The \<open>return pos_bias, neg_bias\<close> inside the loop
  is behind that first statement and is never reached.
\<close>

definition ds_stm_2d :: "'j env \<Rightarrow> world \<Rightarrow> world \<times> (pyerror + ds_locals)" where
  "ds_stm_2d e w =
     (case requests_get e w ''https://ndownloader.figshare.com/files/21884952'' of
        (w1, Inl x) \<Rightarrow> (w1, Inl x)
      | (w1, Inr r_jpg) \<Rightarrow>
       (case zip_members e r_jpg of
          Inl x \<Rightarrow> (w1, Inl x)
        | Inr z \<Rightarrow>
         (case requests_get e w1 ''https://ndownloader.figshare.com/files/21893379'' of
            (w2, Inl x) \<Rightarrow> (w2, Inl x)
          | (w2, Inr r_json) \<Rightarrow>
           (case json_loads e r_json of
              Inl x \<Rightarrow> (w2, Inl x)
            | Inr latts \<Rightarrow>
             (case map fst z of
                [] \<Rightarrow> (print w2 ''Obtaining 2D STM dataset ...'',
                       Inr \<lparr>url = None, js_tag = None, discarded = None\<rparr>)
              | i # namelist \<Rightarrow> (w2, Inl (NameError ''mpimg'')))))))"

definition datasets_body :: "'j env \<Rightarrow> world \<Rightarrow> string \<Rightarrow> world \<times> (pyerror + ds_locals)" where
  "datasets_body e w dataset =
    (if dataset = ''dft_2d'' then
       ds_assign w ''https://ndownloader.figshare.com/files/22471019''
         ''jdft_2d-4-26-2020.json'' ''Obtaining 2D dataset ...''
     else if dataset = ''dft_3d'' then
       ds_assign w ''https://ndownloader.figshare.com/files/22471022''
         ''jdft_3d-4-26-2020.json'' ''Obtaining 3D dataset ...''
     else if dataset = ''stm_2d'' then ds_stm_2d e w
     else if dataset = ''cfid_3d'' then
       ds_assign w ''https://ndownloader.figshare.com/files/22470818''
         ''jml_3d-4-26-2020.json'' ''Obtaining JARVIS-3D CFID dataset 37k...''
     else if dataset = ''mp_3d'' then
       ds_assign w ''https://ndownloader.figshare.com/files/24979850''
         ''CFID_mp_desc_data_84k.json'' ''Obtaining Materials Project-3D CFID dataset 84k...''
     else if dataset = ''mp_3d_2020'' then
       ds_assign w ''https://ndownloader.figshare.com/files/26791259''
         ''all_mp.json'' ''Obtaining Materials Project-3D CFID dataset 127k...''
     else if dataset = ''megnet'' then
       ds_assign w ''https://ndownloader.figshare.com/files/26724977''
         ''megnet.json'' ''Obtaining MEGNET-3D CFID dataset 69k...''
     else if dataset = ''oqmd_3d'' then
       ds_assign w ''https://ndownloader.figshare.com/files/24981170''
         ''CFID_OQMD_460k.json'' ''Obtaining OQMD-3D CFID dataset 460k...''
     else if dataset = ''oqmd_3d_no_cfid'' then
       ds_assign w ''https://ndownloader.figshare.com/files/26790182''
         ''all_oqmd.json'' ''Obtaining OQMD-3D  dataset 800k...''
     else if dataset = ''twod_matpd'' then
       ds_assign w ''https://ndownloader.figshare.com/files/26789006''
         ''twodmatpd.json'' ''Obtaining 2DMatPedia dataset 6k...''
     else if dataset = ''qm9'' then
       ds_assign w ''https://ndownloader.figshare.com/files/25159592''
         ''qm9_data_cfid.json'' ''Obtaining QM9-molecule CFID dataset 134k...''
     else if dataset = ''aflow1'' then
       ds_assign w ''https://ndownloader.figshare.com/files/25453256''
         ''CFID_AFLOW1.json'' ''Obtaining AFLOW-1 CFID dataset 400k...''
     else if dataset = ''aflow2'' then
       ds_assign w ''https://ndownloader.figshare.com/files/25453265''
         ''CFID_AFLOW2.json'' ''Obtaining AFLOW-2 CFID dataset 400k...''
     else if dataset = ''arXiv'' then
       ds_assign w ''https://ndownloader.figshare.com/files/26804795''
         ''arXivdataset.json'' ''Obtaining arXiv dataset...''
     else if dataset = ''cord19'' then
       ds_assign w ''https://ndownloader.figshare.com/files/26804798''
         ''cord19.json'' ''Obtaining CORD19 dataset...''
     else if dataset = ''raw_files'' then
       ds_assign w ''https://ndownloader.figshare.com/files/25295732''
         ''figshare_data-10-28-2020.json'' ''Obtaining raw io files...''
     else
       (w, Inr \<lparr>url = None, js_tag = None,
                 discarded = Some (ValueError ''Dataset doesnt exist'')\<rparr>))"

text \<open>\<open>return url, js_tag\<close>: reading a local that was never assigned raises.\<close>

definition ds_return :: "ds_locals \<Rightarrow> pyerror + string \<times> string" where
  "ds_return l =
     (case url l of
        None \<Rightarrow> Inl (UnboundLocalError ''url'')
      | Some u \<Rightarrow>
         (case js_tag l of
            None \<Rightarrow> Inl (UnboundLocalError ''js_tag'')
          | Some t \<Rightarrow> Inr (u, t)))"

definition datasets :: "'j env \<Rightarrow> world \<Rightarrow> string \<Rightarrow> world \<times> (pyerror + string \<times> string)" where
  "datasets e w dataset =
     (case datasets_body e w dataset of
        (w', Inl x) \<Rightarrow> (w', Inl x)
      | (w', Inr l) \<Rightarrow> (w', ds_return l))"

text \<open>The names the chain of comparisons in \<open>datasets\<close> tests for, in its order.\<close>

definition dataset_names :: "string list" where
  "dataset_names =
     [''dft_2d'', ''dft_3d'', ''stm_2d'', ''cfid_3d'', ''mp_3d'', ''mp_3d_2020'', ''megnet'',
      ''oqmd_3d'', ''oqmd_3d_no_cfid'', ''twod_matpd'', ''qm9'', ''aflow1'', ''aflow2'',
      ''arXiv'', ''cord19'', ''raw_files'']"

text \<open>
  The catalog as a table, read off the branches that assign \<open>url\<close> and \<open>js_tag\<close>:
  name, download URL, cached file name. The \<open>stm_2d\<close> branch assigns neither and has
  no row.
\<close>

definition catalog :: "(string \<times> string \<times> string) list" where
  "catalog =
     [(''dft_2d'', ''https://ndownloader.figshare.com/files/22471019'', ''jdft_2d-4-26-2020.json''),
      (''dft_3d'', ''https://ndownloader.figshare.com/files/22471022'', ''jdft_3d-4-26-2020.json''),
      (''cfid_3d'', ''https://ndownloader.figshare.com/files/22470818'', ''jml_3d-4-26-2020.json''),
      (''mp_3d'', ''https://ndownloader.figshare.com/files/24979850'', ''CFID_mp_desc_data_84k.json''),
      (''mp_3d_2020'', ''https://ndownloader.figshare.com/files/26791259'', ''all_mp.json''),
      (''megnet'', ''https://ndownloader.figshare.com/files/26724977'', ''megnet.json''),
      (''oqmd_3d'', ''https://ndownloader.figshare.com/files/24981170'', ''CFID_OQMD_460k.json''),
      (''oqmd_3d_no_cfid'', ''https://ndownloader.figshare.com/files/26790182'', ''all_oqmd.json''),
      (''twod_matpd'', ''https://ndownloader.figshare.com/files/26789006'', ''twodmatpd.json''),
      (''qm9'', ''https://ndownloader.figshare.com/files/25159592'', ''qm9_data_cfid.json''),
      (''aflow1'', ''https://ndownloader.figshare.com/files/25453256'', ''CFID_AFLOW1.json''),
      (''aflow2'', ''https://ndownloader.figshare.com/files/25453265'', ''CFID_AFLOW2.json''),
      (''arXiv'', ''https://ndownloader.figshare.com/files/26804795'', ''arXivdataset.json''),
      (''cord19'', ''https://ndownloader.figshare.com/files/26804798'', ''cord19.json''),
      (''raw_files'', ''https://ndownloader.figshare.com/files/25295732'', ''figshare_data-10-28-2020.json'')]"

section \<open>figshare.py: data\<close>

text \<open>\<open>os.path.join(a, b)\<close> for two components, on POSIX.\<close>

definition path_join :: "string \<Rightarrow> string \<Rightarrow> string" where
  "path_join a b =
     (if b \<noteq> [] \<and> hd b = CHR ''/'' then b
      else if a = [] \<or> last a = CHR ''/'' then a @ b
      else a @ ''/'' @ b)"

text \<open>
  Modelled from the spec: \<open>loadjson\<close> of \<open>jarvis.db.jsonutils\<close>, which is not among
  the sources. It opens the file and decodes its JSON text; the decoder itself is the
  parameter \<open>json_loads\<close>.
\<close>

definition loadjson :: "'j env \<Rightarrow> world \<Rightarrow> string \<Rightarrow> pyerror + 'j" where
  "loadjson e w path =
     (case files w path of
        None \<Rightarrow> Inl (FileNotFoundError path)
      | Some text \<Rightarrow> json_loads e text)"

text \<open>
  \<open>zipObj.extractall(directory)\<close>: every member is written below the directory,
  a later member of the same name over an earlier one. \<open>zip_members\<close> gives the
  members under the relative names extraction stores them at.
\<close>

definition extractall :: "string \<Rightarrow> (string \<times> string) list \<Rightarrow> (string \<rightharpoonup> string) \<Rightarrow> (string \<rightharpoonup> string)" where
  "extractall directory members fs =
     fold (\<lambda>(name, content) m. m(path_join directory name \<mapsto> content)) members fs"

definition data :: "'j env \<Rightarrow> world \<Rightarrow> string \<Rightarrow> world \<times> (pyerror + 'j)" where
  "data e w dataset =
     (case datasets e w dataset of
        (w0, Inl err) \<Rightarrow> (w0, Inl err)
      | (w0, Inr (u, t)) \<Rightarrow>
         (let path = path_join (module_dir e) t in
          if files w0 path = None then
            (let zfile = path_join (module_dir e) ''tmp.zip'' in
             case requests_get e w0 u of
               (w1, Inl err) \<Rightarrow> (w1, Inl err)
             | (w1, Inr content) \<Rightarrow>
                (let w2 = w1\<lparr>files := (files w1)(zfile \<mapsto> content)\<rparr> in
                 case zip_members e content of
                   Inl err \<Rightarrow> (w2, Inl err)
                 | Inr members \<Rightarrow>
                    (let w3 = w2\<lparr>files := extractall (module_dir e) members (files w2)\<rparr>;
                         w4 = w3\<lparr>files := (files w3)(zfile := None)\<rparr>
                     in (w4, loadjson e w4 path))))
          else (w0, loadjson e w0 path)))"

section \<open>figshare.py: get_wann_electron and get_wann_phonon\<close>

text \<open>
  An element of one of the lists of the raw-file index: a JSON object with string
  values, or anything else.
\<close>

datatype entry = Dict "(string \<times> string) list" | NonDict

text \<open>\<open>s.split(sep)[0]\<close>: the text before the first occurrence of \<open>sep\<close>.\<close>

fun before_sep :: "string \<Rightarrow> string \<Rightarrow> string" where
  "before_sep sep [] = []"
| "before_sep sep (c # cs) =
     (if take (length sep) (c # cs) = sep then [] else c # before_sep sep cs)"

text \<open>\<open>i[key]\<close> for an element of the index.\<close>

fun entry_get :: "entry \<Rightarrow> string \<Rightarrow> pyerror + string" where
  "entry_get NonDict key = Inl TypeError"
| "entry_get (Dict kv) key = dict_get (map_of kv) key key"

text \<open>\<open>z.read(name)\<close> on an opened archive.\<close>

definition zip_read :: "(string \<times> string) list \<Rightarrow> string \<Rightarrow> pyerror + string" where
  "zip_read z name = dict_get (map_of z) name name"

text \<open>
  The constructors and parsers of the other modules, as parameters, each given the
  text it is run on: \<open>WannierHam\<close> on the text of a Hamiltonian file, the Fermi
  energy \<open>d["info_mesh"]["efermi"]\<close> of a decoded JSON text, \<open>Poscar.from_file(...).atoms\<close>
  on the text of a structure file, and for phonons the chain from \<open>Vasprun\<close> over
  \<open>get_phonon_tb\<close> to \<open>WannierHam\<close>, which yields the Hamiltonian and the first
  structure. \<open>phonopy_importable\<close> says whether the import inside
  \<open>get_wann_phonon\<close> succeeds. The temporary files the code writes the texts to are
  not tracked.
\<close>

record ('h, 'f, 'a) wann_env =
  wannier_ham :: "string \<Rightarrow> pyerror + 'h"
  efermi_of :: "string \<Rightarrow> pyerror + 'f"
  poscar_atoms :: "string \<Rightarrow> pyerror + 'a"
  phonon_tb :: "string \<Rightarrow> real \<Rightarrow> pyerror + 'h \<times> 'a"
  phonopy_importable :: bool

text \<open>
  The local variables of \<open>get_wann_electron\<close>: \<open>w\<close> and \<open>ef\<close> start as the empty
  string (\<open>Inl\<close> of it), \<open>atoms\<close> starts unassigned.
\<close>

record ('h, 'f, 'a) we_locals =
  we_w :: "string + 'h"
  we_ef :: "string + 'f"
  we_atoms :: "'a option"

text \<open>The body of the \<open>if\<close> inside the loop of \<open>get_wann_electron\<close>.\<close>

definition we_fetch ::
  "'j env \<Rightarrow> ('h, 'f, 'a) wann_env \<Rightarrow> world \<Rightarrow> entry \<Rightarrow> string
     \<Rightarrow> world \<times> (pyerror + ('h, 'f, 'a) we_locals)" where
  "we_fetch e we wld i jid =
     (case entry_get i ''download_url'' of
        Inl err \<Rightarrow> (wld, Inl err)
      | Inr u \<Rightarrow>
         (case requests_get e wld u of
            (w1, Inl err) \<Rightarrow> (w1, Inl err)
          | (w1, Inr content) \<Rightarrow>
              (w1,
               case zip_members e content of
                 Inl err \<Rightarrow> Inl err
               | Inr z \<Rightarrow>
                  (case zip_read z ''wannier90_hr.dat'' of
                     Inl err \<Rightarrow> Inl err
                   | Inr wdat \<Rightarrow>
                      (case zip_read z (jid @ ''.json'') of
                         Inl err \<Rightarrow> Inl err
                       | Inr js \<Rightarrow>
                          (case wannier_ham we wdat of
                             Inl err \<Rightarrow> Inl err
                           | Inr h \<Rightarrow>
                              (case efermi_of we js of
                                 Inl err \<Rightarrow> Inl err
                               | Inr ef \<Rightarrow>
                                  (case zip_read z ''POSCAR'' of
                                     Inl err \<Rightarrow> Inl err
                                   | Inr pos \<Rightarrow>
                                      (case poscar_atoms we pos of
                                         Inl err \<Rightarrow> Inl err
                                       | Inr atoms \<Rightarrow>
                                           Inr \<lparr>we_w = Inr h, we_ef = Inr ef,
                                                we_atoms = Some atoms\<rparr>)))))))))"

text \<open>The loop: it has no \<open>break\<close>, so a later match overwrites an earlier one.\<close>

fun we_loop ::
  "'j env \<Rightarrow> ('h, 'f, 'a) wann_env \<Rightarrow> string \<Rightarrow> world \<Rightarrow> ('h, 'f, 'a) we_locals \<Rightarrow> entry list
     \<Rightarrow> world \<times> (pyerror + ('h, 'f, 'a) we_locals)" where
  "we_loop e we jid wld l [] = (wld, Inr l)"
| "we_loop e we jid wld l (i # rest) =
     (case entry_get i ''name'' of
        Inl err \<Rightarrow> (wld, Inl err)
      | Inr name \<Rightarrow>
          if before_sep ''.zip'' name = jid then
            (case we_fetch e we wld i jid of
               (w1, Inl err) \<Rightarrow> (w1, Inl err)
             | (w1, Inr l1) \<Rightarrow> we_loop e we jid w1 l1 rest)
          else we_loop e we jid wld l rest)"

definition get_wann_electron ::
  "'j env \<Rightarrow> ('h, 'f, 'a) wann_env \<Rightarrow> (string \<rightharpoonup> entry list) \<Rightarrow> world \<Rightarrow> string
     \<Rightarrow> world \<times> (pyerror + (string + 'h) \<times> (string + 'f) \<times> 'a)" where
  "get_wann_electron e we fls wld jid =
     (case dict_get fls ''WANN'' ''WANN'' of
        Inl err \<Rightarrow> (wld, Inl err)
      | Inr entries \<Rightarrow>
         (case we_loop e we jid wld \<lparr>we_w = Inl [], we_ef = Inl [], we_atoms = None\<rparr> entries of
            (w1, Inl err) \<Rightarrow> (w1, Inl err)
          | (w1, Inr l) \<Rightarrow>
             (case we_atoms l of
                None \<Rightarrow> (w1, Inl (UnboundLocalError ''atoms''))
              | Some atoms \<Rightarrow> (w1, Inr (we_w l, we_ef l, atoms)))))"

text \<open>The body of the inner \<open>if\<close> of \<open>get_wann_phonon\<close>, up to its \<open>return\<close>.\<close>

definition wp_fetch ::
  "'j env \<Rightarrow> ('h, 'f, 'a) wann_env \<Rightarrow> world \<Rightarrow> entry \<Rightarrow> real \<Rightarrow> world \<times> (pyerror + 'h \<times> 'a)" where
  "wp_fetch e we wld i factor =
     (case entry_get i ''download_url'' of
        Inl err \<Rightarrow> (wld, Inl err)
      | Inr u \<Rightarrow>
         (case requests_get e wld u of
            (w1, Inl err) \<Rightarrow> (w1, Inl err)
          | (w1, Inr content) \<Rightarrow>
              (w1,
               case zip_members e content of
                 Inl err \<Rightarrow> Inl err
               | Inr z \<Rightarrow>
                  (case zip_read z ''vasprun.xml'' of
                     Inl err \<Rightarrow> Inl err
                   | Inr vrun \<Rightarrow> phonon_tb we vrun factor))))"

text \<open>
  The loop of \<open>get_wann_phonon\<close>: elements that are no dict are passed over, the
  first match returns, and running off the end of the list returns None.
\<close>

fun wp_loop ::
  "'j env \<Rightarrow> ('h, 'f, 'a) wann_env \<Rightarrow> string \<Rightarrow> real \<Rightarrow> world \<Rightarrow> entry list
     \<Rightarrow> world \<times> (pyerror + ('h \<times> 'a) option)" where
  "wp_loop e we jid factor wld [] = (wld, Inr None)"
| "wp_loop e we jid factor wld (NonDict # rest) = wp_loop e we jid factor wld rest"
| "wp_loop e we jid factor wld (Dict kv # rest) =
     (case entry_get (Dict kv) ''name'' of
        Inl err \<Rightarrow> (wld, Inl err)
      | Inr name \<Rightarrow>
          if before_sep ''.zip'' name = jid then
            (case wp_fetch e we wld (Dict kv) factor of
               (w1, Inl err) \<Rightarrow> (w1, Inl err)
             | (w1, Inr r) \<Rightarrow> (w1, Inr (Some r)))
          else wp_loop e we jid factor wld rest)"

definition get_wann_phonon ::
  "'j env \<Rightarrow> ('h, 'f, 'a) wann_env \<Rightarrow> (string \<rightharpoonup> entry list) \<Rightarrow> world \<Rightarrow> string \<Rightarrow> real
     \<Rightarrow> world \<times> (pyerror + ('h \<times> 'a) option)" where
  "get_wann_phonon e we fls wld jid factor =
     (if \<not> phonopy_importable we then (wld, Inl (ImportError ''jarvis.io.phonopy.outputs''))
      else
        case dict_get fls ''FD-ELAST'' ''FD-ELAST'' of
          Inl err \<Rightarrow> (wld, Inl err)
        | Inr entries \<Rightarrow> wp_loop e we jid factor wld entries)"

text \<open>An entry of the index is no match for \<open>jid\<close>.\<close>

fun no_match :: "string \<Rightarrow> entry \<Rightarrow> bool" where
  "no_match jid NonDict = False"
| "no_match jid (Dict kv) =
     (case map_of kv ''name'' of
        None \<Rightarrow> False
      | Some name \<Rightarrow> before_sep ''.zip'' name \<noteq> jid)"

section \<open>figshare.py: get_hk_tb\<close>

text \<open>
  The fields of a Wannier Hamiltonian object the function reads: the lattice vectors
  \<open>R\<close> (one row each), the rows \<open>HR\<close> of the real-space Hamiltonian (one per
  lattice vector, the matrix flattened row by row) and the number of Wannier functions.
  Arrays are lists of rows; complex128 arithmetic is read as arithmetic of complex
  numbers. An array without rows is taken to have the width the other operand needs.
\<close>

record wannier_ham =
  R :: "real list list"
  HR :: "complex list list"
  nwan :: nat

text \<open>
  Elementwise product of two one-dimensional arrays under broadcasting: equal
  lengths, or one of them of length one.
\<close>

definition np_mul_bc :: "real list \<Rightarrow> real list \<Rightarrow> pyerror + real list" where
  "np_mul_bc a b =
     (if length a = length b then Inr (map2 (*) a b)
      else if length a = 1 then Inr (map (\<lambda>y. hd a * y) b)
      else if length b = 1 then Inr (map (\<lambda>x. x * hd b) a)
      else Inl (ValueError ''operands could not be broadcast together''))"

text \<open>\<open>np.sum(kmat * w.R, 1)\<close>, where every row of \<open>kmat\<close> is \<open>k\<close>.\<close>

definition k_dot_R :: "real list \<Rightarrow> real list list \<Rightarrow> pyerror + real list" where
  "k_dot_R k rows =
     emap (\<lambda>r. case np_mul_bc k r of Inl err \<Rightarrow> Inl err | Inr p \<Rightarrow> Inr (sum_list p)) rows"

text \<open>\<open>temp += v\<close>: \<open>v\<close> is broadcast to the shape of \<open>temp\<close>, which it keeps.\<close>

definition np_iadd :: "complex list \<Rightarrow> complex list \<Rightarrow> pyerror + complex list" where
  "np_iadd temp v =
     (if length v = length temp then Inr (map2 (+) temp v)
      else if length v = 1 then Inr (map (\<lambda>t. t + hd v) temp)
      else Inl (ValueError ''non-broadcastable output operand''))"

text \<open>The loop over \<open>range(nr)\<close>, given the indices still to visit.\<close>

fun hk_loop :: "complex list \<Rightarrow> complex list list \<Rightarrow> nat list \<Rightarrow> complex list \<Rightarrow> pyerror + complex list" where
  "hk_loop exp_ikr hr [] temp = Inr temp"
| "hk_loop exp_ikr hr (i # rest) temp =
     (case np_index hr (int i) of
        Inl err \<Rightarrow> Inl err
      | Inr row \<Rightarrow>
         (case np_iadd temp (map (\<lambda>z. exp_ikr ! i * z) row) of
            Inl err \<Rightarrow> Inl err
          | Inr temp' \<Rightarrow> hk_loop exp_ikr hr rest temp'))"

text \<open>An \<open>n\<close> by \<open>m\<close> array given by its entries, and \<open>np.reshape\<close> to that shape.\<close>

definition tabulate2 :: "nat \<Rightarrow> nat \<Rightarrow> (nat \<Rightarrow> nat \<Rightarrow> 'a) \<Rightarrow> 'a list list" where
  "tabulate2 n m f = map (\<lambda>a. map (\<lambda>b. f a b) [0..<m]) [0..<n]"

definition np_reshape :: "'a list \<Rightarrow> nat \<Rightarrow> nat \<Rightarrow> pyerror + 'a list list" where
  "np_reshape xs n m =
     (if length xs = n * m then Inr (tabulate2 n m (\<lambda>a b. xs ! (a * m + b)))
      else Inl (ValueError ''cannot reshape array''))"

text \<open>The transpose \<open>A.T\<close> and the elementwise conjugate of a two-dimensional array.\<close>

definition n_columns :: "'a list list \<Rightarrow> nat" where
  "n_columns A = (case A of [] \<Rightarrow> 0 | r # rest \<Rightarrow> length r)"

definition mat_T :: "'a list list \<Rightarrow> 'a list list" where
  "mat_T A = map (\<lambda>j. map (\<lambda>row. row ! j) A) [0..<n_columns A]"

definition mat_conj :: "complex list list \<Rightarrow> complex list list" where
  "mat_conj A = map (map cnj) A"

definition get_hk_tb :: "real list \<Rightarrow> wannier_ham \<Rightarrow> pyerror + complex list list" where
  "get_hk_tb k w =
     (let nr = length (R w) in
      case k_dot_R k (R w) of
        Inl err \<Rightarrow> Inl err
      | Inr kr \<Rightarrow>
         (let exp_ikr = map (\<lambda>x. exp (\<i> * 2 * complex_of_real pi * complex_of_real x)) kr;
              temp = replicate ((nwan w)\<^sup>2) 0
          in case hk_loop exp_ikr (HR w) [0..<nr] temp of
               Inl err \<Rightarrow> Inl err
             | Inr temp' \<Rightarrow>
                (case np_reshape temp' (nwan w) (nwan w) of
                   Inl err \<Rightarrow> Inl err
                 | Inr hk \<Rightarrow>
                     Inr (map (map (\<lambda>z. z / 2)) (map2 (map2 (+)) hk (mat_conj (mat_T hk)))))))"

text \<open>
  The formula of the specification, entry by entry: the Fourier sum over the lattice
  vectors, reshaped, and its Hermitian part.
\<close>

definition fourier_sum :: "real list \<Rightarrow> wannier_ham \<Rightarrow> nat \<Rightarrow> complex" where
  "fourier_sum k w idx =
     (\<Sum>r < length (R w).
        exp (2 * complex_of_real pi * \<i> * complex_of_real (\<Sum>j < length k. k ! j * R w ! r ! j))
          * HR w ! r ! idx)"

definition hermitian_part_of_sum :: "real list \<Rightarrow> wannier_ham \<Rightarrow> complex list list" where
  "hermitian_part_of_sum k w =
     tabulate2 (nwan w) (nwan w)
       (\<lambda>a b. (fourier_sum k w (a * nwan w + b) + cnj (fourier_sum k w (b * nwan w + a))) / 2)"

text \<open>The shapes under which the formula is defined.\<close>

definition well_shaped :: "real list \<Rightarrow> wannier_ham \<Rightarrow> bool" where
  "well_shaped k w =
     (list_all (\<lambda>r. length r = length k) (R w)
      \<and> length (R w) \<le> length (HR w)
      \<and> list_all (\<lambda>row. length row = (nwan w)\<^sup>2) (take (length (R w)) (HR w)))"

section \<open>inputs.py: prepare_jdos\<close>

text \<open>
  The fields of the Phonopy object the code reads: the supercell dimensions and the
  primitive cell (lattice, positions, atomic numbers), which only spglib looks into.
\<close>

record 'c phonopy_obj =
  scell_dim :: "int list"
  primitive :: 'c

text \<open>
  The command string. \<open>gridpt_uids\<close> are the distinct grid-point indices of the
  irreducible mesh. The elements of \<open>dims\<close>, \<open>mesh\<close>, the grid points and the
  temperatures are integers; the elements of \<open>pa\<close> are strings, whose \<open>str\<close> is
  the string itself.
\<close>

definition jdos_base_cmd :: "int list \<Rightarrow> int list \<Rightarrow> string \<Rightarrow> int list \<Rightarrow> int \<Rightarrow> string" where
  "jdos_base_cmd dims mesh poscar gridpt_uids num_freq_points =
     ''phono3py --fc2 --dim='' @ [dq]
       @ join '' '' (map str_int dims)
       @ [dq] @ '' --mesh='' @ [dq]
       @ join '' '' (map str_int mesh)
       @ [dq] @ '' -c ''
       @ poscar
       @ '' --jdos''
       @ '' --gp='' @ [dq]
       @ join '' '' (map str_int gridpt_uids)
       @ [dq] @ '' --num-freq-points=''
       @ str_int num_freq_points"

definition jdos_cmd ::
  "int list \<Rightarrow> int list \<Rightarrow> string \<Rightarrow> int list \<Rightarrow> int list option \<Rightarrow> int \<Rightarrow> string list option \<Rightarrow> string" where
  "jdos_cmd dims mesh poscar gridpt_uids temperatures num_freq_points pa =
     (let phono3py_cmd = jdos_base_cmd dims mesh poscar gridpt_uids num_freq_points;
          phono3py_cmd =
            (case temperatures of
               None \<Rightarrow> phono3py_cmd
             | Some ts \<Rightarrow>
                 phono3py_cmd @ [dq] @ '' --ts='' @ [dq] @ join '' '' (map str_int ts));
          phono3py_cmd =
            (case pa of
               None \<Rightarrow> phono3py_cmd
             | Some ps \<Rightarrow> phono3py_cmd @ '' --pa= '' @ [dq] @ join '' '' ps @ [dq])
      in phono3py_cmd)"

text \<open>
  The function: spglib maps every mesh point to its irreducible representative
  (\<open>ir_mesh\<close>, a parameter, which may raise), the command is printed and, with
  \<open>run\<close>, handed to the shell. The parameter \<open>scell_dim\<close> is not read: the
  dimensions come from the object.
\<close>

definition prepare_jdos ::
  "(int list \<Rightarrow> 'c \<Rightarrow> pyerror + int list) \<Rightarrow> world \<Rightarrow> 'c phonopy_obj \<Rightarrow> string \<Rightarrow> int list
     \<Rightarrow> int list option \<Rightarrow> int list option \<Rightarrow> int \<Rightarrow> string list option \<Rightarrow> bool
     \<Rightarrow> world \<times> (pyerror + unit)" where
  "prepare_jdos ir_mesh w phonopy_obj poscar mesh scell_dim_arg temperatures num_freq_points pa run =
     (case ir_mesh mesh (primitive phonopy_obj) of
        Inl err \<Rightarrow> (w, Inl err)
      | Inr mapping \<Rightarrow>
         (let gridpt_uids = np_unique mapping;
              dims = scell_dim phonopy_obj;
              phono3py_cmd = jdos_cmd dims mesh poscar gridpt_uids temperatures num_freq_points pa;
              w1 = print w phono3py_cmd;
              w2 = (if run then w1\<lparr>shell_calls := shell_calls w1 @ [phono3py_cmd]\<rparr> else w1)
          in (w2, Inr ())))"

section \<open>inputs.py: prepare_gruneisen_quasiharmonic\<close>

text \<open>
  A Python string is a list of characters with code points below 256. The line
  boundaries of \<open>str.splitlines\<close> in that range: line feed, carriage return,
  vertical tab, form feed, the three separators 0x1C to 0x1E, and next line (0x85).
\<close>

definition LF :: char where
  "LF = CHR 0x0A"

definition CR :: char where
  "CR = CHR 0x0D"

definition is_linebreak :: "char \<Rightarrow> bool" where
  "is_linebreak c =
     (c = LF \<or> c = CR \<or> c = CHR 0x0B \<or> c = CHR 0x0C \<or> c = CHR 0x1C \<or> c = CHR 0x1D
      \<or> c = CHR 0x1E \<or> c = CHR 0x85)"

text \<open>
  Reading a file opened in text mode with the default \<open>newline=None\<close>: a carriage
  return, alone or before a line feed, arrives as one line feed.
\<close>

fun universal_newlines :: "string \<Rightarrow> string" where
  "universal_newlines [] = []"
| "universal_newlines [c] = [if c = CR then LF else c]"
| "universal_newlines (c # d # cs) =
     (if c = CR then
        (if d = LF then LF # universal_newlines cs else LF # universal_newlines (d # cs))
      else c # universal_newlines (d # cs))"

text \<open>
  \<open>s.splitlines()\<close>: the lines without their boundaries; a carriage return followed
  by a line feed is one boundary, and a boundary at the very end opens no further line.
\<close>

fun splitlines :: "string \<Rightarrow> string list" where
  "splitlines [] = []"
| "splitlines [c] = (if is_linebreak c then [[]] else [[c]])"
| "splitlines (c # d # cs) =
     (if is_linebreak c then
        (if c = CR \<and> d = LF then [] # splitlines cs else [] # splitlines (d # cs))
      else
        (case splitlines (d # cs) of
           [] \<Rightarrow> [[c]]
         | l # ls \<Rightarrow> (c # l) # ls))"

text \<open>
  Floating-point numbers are an abstract type with the operations the function uses:
  \<open>float(s)\<close>, which raises ValueError on text that is no number, multiplication,
  division, which raises ZeroDivisionError, and \<open>str\<close>.
\<close>

record 'f float_ops =
  float_of_str :: "string \<Rightarrow> pyerror + 'f"
  fmul :: "'f \<Rightarrow> 'f \<Rightarrow> 'f"
  fdiv :: "'f \<Rightarrow> 'f \<Rightarrow> pyerror + 'f"
  str_of_float :: "'f \<Rightarrow> string"

text \<open>\<open>open(path, "w")\<close> followed by writing one string.\<close>

definition write_file :: "world \<Rightarrow> string \<Rightarrow> string \<Rightarrow> world" where
  "write_file w path s = w\<lparr>files := (files w)(path \<mapsto> s)\<rparr>"

definition prepare_gruneisen_quasiharmonic ::
  "'f float_ops \<Rightarrow> world \<Rightarrow> string \<Rightarrow> 'f \<Rightarrow> world \<times> (pyerror + unit)" where
  "prepare_gruneisen_quasiharmonic ops w orig_poscar scale =
     (case files w orig_poscar of
        None \<Rightarrow> (w, Inl (FileNotFoundError orig_poscar))
      | Some content \<Rightarrow>
         (let pos_text = splitlines (universal_newlines content) in
          case np_index pos_text 1 of
            Inl err \<Rightarrow> (w, Inl err)
          | Inr line1 \<Rightarrow>
             (case float_of_str ops line1 of
                Inl err \<Rightarrow> (w, Inl err)
              | Inr v \<Rightarrow>
                 (let scale_plus = fmul ops v scale in
                  case float_of_str ops line1 of
                    Inl err \<Rightarrow> (w, Inl err)
                  | Inr v2 \<Rightarrow>
                     (case fdiv ops v2 scale of
                        Inl err \<Rightarrow> (w, Inl err)
                      | Inr scale_minus \<Rightarrow>
                         (let pos_text = pos_text[1 := str_of_float ops scale_plus];
                              w1 = write_file w ''POSCAR-plus'' (join [LF] pos_text);
                              pos_text = pos_text[1 := str_of_float ops scale_minus];
                              w2 = write_file w1 ''POSCAR-minus'' (join [LF] pos_text)
                          in (w2, Inr ())))))))"

text \<open>
  The lines of a written file, for stating what was written: the pieces between its
  line feeds, as \<open>s.split("\n")\<close> gives them.
\<close>

fun lines_of :: "string \<Rightarrow> string list" where
  "lines_of [] = [[]]"
| "lines_of (c # cs) =
     (if c = LF then [] # lines_of cs
      else (case lines_of cs of [] \<Rightarrow> [[c]] | l # ls \<Rightarrow> (c # l) # ls))"

section \<open>outputs.py: JDOS.select_jdos\<close>

text \<open>
  \<open>np.digitize(xs, bins)\<close> with the default \<open>right=False\<close>: for ascending bins the
  number of bin edges at or below the value, for descending bins the number of edges
  above it (the length less the number at or below it); bins that are neither raise.
\<close>

definition np_digitize :: "real list \<Rightarrow> real list \<Rightarrow> pyerror + nat list" where
  "np_digitize xs bins =
     (if sorted bins then Inr (map (\<lambda>x. length (filter (\<lambda>b. b \<le> x) bins)) xs)
      else if sorted (rev bins) then Inr (map (\<lambda>x. length (filter (\<lambda>b. x < b) bins)) xs)
      else Inl (ValueError ''bins must be monotonically increasing or decreasing''))"

text \<open>
  What \<open>np.genfromtxt\<close> hands back: a one-dimensional array (a file of one row or of
  one column) or a two-dimensional one, as its list of rows.
\<close>

datatype ndarray = Arr1 "real list" | Arr2 "real list list"

text \<open>\<open>data[:, j]\<close>: a one-dimensional array has no second axis.\<close>

fun column :: "ndarray \<Rightarrow> nat \<Rightarrow> pyerror + real list" where
  "column (Arr1 xs) j = Inl IndexError"
| "column (Arr2 rows) j =
     (if list_all (\<lambda>r. j < length r) rows then Inr (map (\<lambda>r. r ! j) rows) else Inl IndexError)"

text \<open>\<open>(N2[i] + N2[i - 1]) / 2\<close> for one index \<open>i\<close> that digitize returned.\<close>

definition jdos_value :: "real list \<Rightarrow> nat \<Rightarrow> pyerror + real" where
  "jdos_value N2 i =
     (case np_index N2 (int i) of
        Inl err \<Rightarrow> Inl err
      | Inr a \<Rightarrow>
         (case np_index N2 (int i - 1) of
            Inl err \<Rightarrow> Inl err
          | Inr b \<Rightarrow> Inr ((a + b) / 2)))"

text \<open>
  The body of the loop once the file is read: \<open>tab\<close> is the loaded table \<open>data\<close>,
  \<open>fs\<close> the branch frequencies \<open>mesh_dict["frequencies"][g]\<close>.
\<close>

definition jdos_row :: "ndarray \<Rightarrow> real list \<Rightarrow> pyerror + real list" where
  "jdos_row tab fs =
     (case column tab 0 of
        Inl err \<Rightarrow> Inl err
      | Inr freq \<Rightarrow>
         (case column tab 1 of
            Inl err \<Rightarrow> Inl err
          | Inr c1 \<Rightarrow>
             (case column tab 2 of
                Inl err \<Rightarrow> Inl err
              | Inr c2 \<Rightarrow>
                 (let N2 = map2 (+) c1 c2 in
                  case np_digitize fs freq of
                    Inl err \<Rightarrow> Inl err
                  | Inr indices \<Rightarrow> emap (jdos_value N2) indices))))"

text \<open>
  The value the selection is meant to store for a branch frequency \<open>x\<close> and a
  loaded table \<open>rows\<close>: with \<open>N2\<close> the sum of the second and third column and
  \<open>i\<close> the number of entries of the first column at or below \<open>x\<close>, the mean of
  \<open>N2[i]\<close> and \<open>N2[i - 1]\<close>, where \<open>N2[-1]\<close> is the last element.
\<close>

definition bin_average :: "real list list \<Rightarrow> real \<Rightarrow> real" where
  "bin_average rows x =
     (let N2 = map (\<lambda>r. r ! 1 + r ! 2) rows;
          i = length (filter (\<lambda>b. b \<le> x) (map (\<lambda>r. r ! 0) rows))
      in (N2 ! i + (if i = 0 then last N2 else N2 ! (i - 1))) / 2)"

text \<open>The name of the file of grid point \<open>gp\<close>.\<close>

definition jdos_file :: "string \<Rightarrow> int list \<Rightarrow> int \<Rightarrow> int option \<Rightarrow> string" where
  "jdos_file directory msh gp temperature =
     (case temperature of
        Some t \<Rightarrow>
          directory @ ''jdos-m'' @ concat (map str_int msh) @ ''-g'' @ str_int gp
            @ ''-t'' @ str_int t @ ''.dat''
      | None \<Rightarrow>
          directory @ ''jdos-m'' @ concat (map str_int msh) @ ''-g'' @ str_int gp @ ''.dat'')"

record 'c jdos =
  j_mesh :: "int list"
  j_temperature :: "int option"
  j_directory :: string
  j_phonopy_obj :: "'c phonopy_obj"
  j_frequencies :: "real list list"

text \<open>
  One turn of the loop over \<open>enumerate(gridpt_uids)\<close>: read the file, select the
  values, and store them as row \<open>g\<close> of a table \<open>ncols\<close> wide; a row of another
  length is broadcast when it has one element and refused otherwise.
\<close>

definition jdos_step ::
  "(string \<Rightarrow> pyerror + ndarray) \<Rightarrow> 'c jdos \<Rightarrow> nat \<Rightarrow> nat \<times> int \<Rightarrow> pyerror + real list" where
  "jdos_step genfromtxt self ncols p =
     (case p of (g, gp) \<Rightarrow>
       (case genfromtxt (jdos_file (j_directory self) (j_mesh self) gp (j_temperature self)) of
          Inl err \<Rightarrow> Inl err
        | Inr tab \<Rightarrow>
           (case np_index (j_frequencies self) (int g) of
              Inl err \<Rightarrow> Inl err
            | Inr fs \<Rightarrow>
               (case jdos_row tab fs of
                  Inl err \<Rightarrow> Inl err
                | Inr vals \<Rightarrow>
                    if length vals = ncols then Inr vals
                    else if length vals = 1 then Inr (replicate ncols (hd vals))
                    else Inl (ValueError ''could not broadcast input array'')))))"

definition select_jdos ::
  "(int list \<Rightarrow> 'c \<Rightarrow> pyerror + int list) \<Rightarrow> (string \<Rightarrow> pyerror + ndarray) \<Rightarrow> 'c jdos
     \<Rightarrow> pyerror + real list list" where
  "select_jdos ir_mesh genfromtxt self =
     (case ir_mesh (j_mesh self) (primitive (j_phonopy_obj self)) of
        Inl err \<Rightarrow> Inl err
      | Inr gridpt_list \<Rightarrow>
         (let gridpt_uids = np_unique gridpt_list in
          case j_frequencies self of
            [] \<Rightarrow> Inl IndexError
          | f0 # rest \<Rightarrow>
              emap (jdos_step genfromtxt self (length f0))
                (zip [0..<length gridpt_uids] gridpt_uids)))"

section \<open>outputs.py: Kappa.kappa\<close>

text \<open>
  The fields of a Kappa object that \<open>kappa\<close> reads. \<open>k_dict\<close> is the mapping made
  from the HDF5 file, its arrays given by their rows.
\<close>

record kappa_obj =
  k_temperatures :: "real list"
  k_kappa_format :: string
  k_dict :: "string \<rightharpoonup> real list list"

datatype kappa_result = Tensor "real list" | Scalar real | PyNone

text \<open>\<open>xs.index(x)\<close>: the position of the first element equal to \<open>x\<close>.\<close>

fun list_index :: "'a list \<Rightarrow> 'a \<Rightarrow> pyerror + nat" where
  "list_index [] x = Inl (ValueError ''x not in list'')"
| "list_index (y # ys) x =
     (if y = x then Inr 0
      else case list_index ys x of Inl err \<Rightarrow> Inl err | Inr n \<Rightarrow> Inr (Suc n))"

definition kappa :: "kappa_obj \<Rightarrow> real \<Rightarrow> pyerror + kappa_result" where
  "kappa self T =
     (if T \<notin> set (k_temperatures self) then
        Inl (GenericException ''Kappa not evaluated at this temperature.'')
      else
        case list_index (k_temperatures self) T of
          Inl err \<Rightarrow> Inl err
        | Inr T_indx \<Rightarrow>
            if k_kappa_format self = ''tensor'' then
              (case dict_get (k_dict self) ''kappa'' ''kappa'' of
                 Inl err \<Rightarrow> Inl err
               | Inr k \<Rightarrow>
                  (case np_index k (int T_indx) of
                     Inl err \<Rightarrow> Inl err
                   | Inr row \<Rightarrow> Inr (Tensor row)))
            else if k_kappa_format self = ''scalar_xx'' then
              (case dict_get (k_dict self) ''kappa'' ''kappa'' of
                 Inl err \<Rightarrow> Inl err
               | Inr k \<Rightarrow>
                  (case np_index k (int T_indx) of
                     Inl err \<Rightarrow> Inl err
                   | Inr row \<Rightarrow>
                      (case np_index row 0 of
                         Inl err \<Rightarrow> Inl err
                       | Inr x \<Rightarrow> Inr (Scalar x))))
            else Inr PyNone)"

section \<open>Concrete inputs for the closed examples\<close>

text \<open>
  A concrete environment for the closed examples below: every GET answers with the
  same bytes, which open as an archive holding one picture, and JSON decodes to a unit.
\<close>

definition example_env :: "unit env" where
  "example_env =
     \<lparr>http_response = (\<lambda>u. Inr ''PK''),
      zip_members = (\<lambda>b. Inr [(''JVASP-1_pos.jpg'', ''jpg'')]),
      json_loads = (\<lambda>s. Inr ()),
      module_dir = ''/site/jarvis/db''\<rparr>"

definition empty_world :: world where
  "empty_world = \<lparr>files = Map.empty, http_log = [], stdout = [], shell_calls = []\<rparr>"

definition jdos_example_rows :: "real list list" where
  "jdos_example_rows = [[1, 10, 1], [2, 20, 2], [3, 30, 3]]"

definition kappa_example :: kappa_obj where
  "kappa_example =
     \<lparr>k_temperatures = [100, 300], k_kappa_format = ''scalar_xx'',
      k_dict = [''kappa'' \<mapsto> [[1, 2, 3, 4, 5, 6]]]\<rparr>"

definition kappa_example_full :: kappa_obj where
  "kappa_example_full =
     \<lparr>k_temperatures = [100, 300], k_kappa_format = ''scalar_xx'',
      k_dict = [''kappa'' \<mapsto> [[1, 2, 3, 4, 5, 6], [7, 8, 9, 10, 11, 12]]]\<rparr>"

definition example_wann_env :: "(unit, unit, unit) wann_env" where
  "example_wann_env =
     \<lparr>wannier_ham = (\<lambda>s. Inr ()), efermi_of = (\<lambda>s. Inr ()), poscar_atoms = (\<lambda>s. Inr ()),
      phonon_tb = (\<lambda>s f. Inr ((), ())), phonopy_importable = True\<rparr>"

definition example_fls :: "string \<rightharpoonup> entry list" where
  "example_fls =
     [''WANN'' \<mapsto> [Dict [(''name'', ''JVASP-816.zip''), (''download_url'', ''https://ndownloader.figshare.com/files/1'')]],
      ''FD-ELAST'' \<mapsto> [Dict [(''name'', ''JVASP-1002.zip''), (''download_url'', ''https://ndownloader.figshare.com/files/2'')]]]"

definition example_data_env :: "string env" where
  "example_data_env =
     \<lparr>http_response = (\<lambda>u. Inr ''PK''),
      zip_members = (\<lambda>b. Inr [(''jdft_3d-4-26-2020.json'', ''[{}]'')]),
      json_loads = (\<lambda>s. Inr s),
      module_dir = ''/site/jarvis/db''\<rparr>"

definition cached_world :: world where
  "cached_world =
     \<lparr>files = [''/site/jarvis/db/jdft_3d-4-26-2020.json'' \<mapsto> ''[]''],
      http_log = [], stdout = [], shell_calls = []\<rparr>"

text \<open>
  A stand-in for the float operations with integers, for the closed examples: the
  second line is read as a decimal integer when it is one, the division rounds down,
  and dividing by zero raises as Python's does.
\<close>

definition int_ops :: "int float_ops" where
  "int_ops =
     \<lparr>float_of_str = (\<lambda>s. if s = ''2'' then Inr 2 else if s = ''6'' then Inr 6
                           else Inl (ValueError ''could not convert string to float'')),
      fmul = (\<lambda>a b. a * b),
      fdiv = (\<lambda>a b. if b = 0 then Inl ZeroDivisionError else Inr (a div b)),
      str_of_float = str_int\<rparr>"

definition poscar_text :: string where
  "poscar_text = ''Si'' @ [LF] @ ''6'' @ [LF] @ ''0 1 1'' @ [LF]"

definition poscar_world :: world where
  "poscar_world =
     \<lparr>files = [''POSCAR'' \<mapsto> poscar_text],
      http_log = [], stdout = [], shell_calls = []\<rparr>"

definition example_jdos :: "unit jdos" where
  "example_jdos =
     \<lparr>j_mesh = [1, 1, 1], j_temperature = None, j_directory = ''jdos/'',
      j_phonopy_obj = \<lparr>scell_dim = [2, 2, 2], primitive = ()\<rparr>,
      j_frequencies = [[1 / 2, 3 / 2]]\<rparr>"

definition example_ham :: wannier_ham where
  "example_ham =
     \<lparr>R = [[0, 0, 0], [1, 0, 0]],
      HR = [[1, \<i>, 2, 3], [0, 1, 0, 0]],
      nwan = 2\<rparr>"

section \<open>Facts about the Python helpers\<close>

lemma digit_not_dq: "d < 10 \<Longrightarrow> digit d \<noteq> dq"
proof -
  assume "d < 10"
  then have "d \<in> {0, 1, 2, 3, 4, 5, 6, 7, 8, 9}"
    by auto
  then show ?thesis
    by (auto simp: digit_def dq_def)
qed

lemma str_nat_no_dq: "dq \<notin> set (str_nat n)"
proof (induction n rule: str_nat.induct)
  case (1 n)
  show ?case
  proof (cases "n < 10")
    case True
    then show ?thesis
      using digit_not_dq [of n] by (subst str_nat.simps) auto
  next
    case False
    have "n mod 10 < 10" by simp
    then have "digit (n mod 10) \<noteq> dq"
      by (rule digit_not_dq)
    with False "1.IH" show ?thesis
      by (subst str_nat.simps) auto
  qed
qed

lemma str_int_no_dq: "dq \<notin> set (str_int i)"
  using str_nat_no_dq by (auto simp: str_int_def dq_def)

lemma count_join_ints: "count_list (join '' '' (map str_int xs)) dq = 0"
proof (induction xs rule: induct_list012)
  case 1
  show ?case by simp
next
  case (2 x)
  show ?case using str_int_no_dq [of x] by (simp add: count_list_0_iff)
next
  case (3 x y zs)
  then show ?case
    using str_int_no_dq [of x] by (simp add: count_list_0_iff dq_def)
qed

lemma count_str_int: "count_list (str_int i) dq = 0"
  using str_int_no_dq [of i] by (simp add: count_list_0_iff)

lemma emap_total:
  "(\<And>x. x \<in> set xs \<Longrightarrow> f x = Inr (g x)) \<Longrightarrow> emap f xs = Inr (map g xs)"
  by (induction xs) simp_all

lemma emap_map_total:
  "(\<And>x. x \<in> set xs \<Longrightarrow> f (h x) = Inr (g x)) \<Longrightarrow> emap f (map h xs) = Inr (map g xs)"
  by (induction xs) simp_all

lemma np_index_nat: "i < length xs \<Longrightarrow> np_index xs (int i) = Inr (xs ! i)"
  by (simp add: np_index_def)

lemma np_index_minus_one: "xs \<noteq> [] \<Longrightarrow> np_index xs (- 1) = Inr (last xs)"
proof -
  assume ne: "xs \<noteq> []"
  then obtain n where n: "length xs = Suc n"
    by (cases xs) auto
  have "last xs = xs ! n"
    using ne n by (simp add: last_conv_nth)
  then show ?thesis
    using n by (simp add: np_index_def)
qed

lemma np_index_beyond: "length xs \<le> i \<Longrightarrow> np_index xs (int i) = Inl IndexError"
  by (simp add: np_index_def)

section \<open>Properties of datasets\<close>

lemma datasets_assign_result:
  "datasets_body e w dataset = ds_assign w u t msg \<Longrightarrow>
     datasets e w dataset = (print w msg, Inr (u, t))"
  by (simp add: datasets_def ds_assign_def ds_return_def)

lemma catalog_names:
  assumes "name \<in> set dataset_names" and "name \<noteq> ''stm_2d''"
  shows "name \<in> fst ` set catalog"
  using assms unfolding dataset_names_def catalog_def by simp

lemma datasets_body_rows:
  "\<forall>(n, u, t) \<in> set catalog. \<exists>msg. datasets_body e w n = ds_assign w u t msg"
  unfolding catalog_def by (simp add: datasets_body_def) (rule conjI exI refl)+

lemma ds_stm_2d_raises: "\<exists>w' err. ds_stm_2d e w = (w', Inl err) \<or>
    ds_stm_2d e w = (w', Inr \<lparr>url = None, js_tag = None, discarded = None\<rparr>)"
  by (auto simp: ds_stm_2d_def split: prod.splits sum.splits list.splits)

lemma datasets_stm_2d_raises: "\<exists>w' err. datasets e w ''stm_2d'' = (w', Inl err)"
proof -
  have b: "datasets_body e w ''stm_2d'' = ds_stm_2d e w"
    by (simp add: datasets_body_def)
  from ds_stm_2d_raises [of e w] show ?thesis
    by (auto simp: datasets_def b ds_return_def)
qed

lemma datasets_unknown_raises:
  assumes "dataset \<notin> set dataset_names"
  shows "datasets e w dataset = (w, Inl (UnboundLocalError ''url''))"
proof -
  have "datasets_body e w dataset =
           (w, Inr \<lparr>url = None, js_tag = None,
                     discarded = Some (ValueError ''Dataset doesnt exist'')\<rparr>)"
    using assms by (simp add: dataset_names_def datasets_body_def)
  then show ?thesis
    by (simp add: datasets_def ds_return_def)
qed

lemma datasets_known_returns:
  assumes "name \<in> set dataset_names" and "name \<noteq> ''stm_2d''"
  shows "\<exists>u t msg. map_of catalog name = Some (u, t)
           \<and> datasets e w name = (print w msg, Inr (u, t))"
proof -
  have d: "distinct (map fst catalog)"
    by (simp add: catalog_def)
  from catalog_names [OF assms] obtain u t where in_cat: "(name, u, t) \<in> set catalog"
    by force
  with datasets_body_rows [of e w]
  obtain msg where "datasets_body e w name = ds_assign w u t msg"
    by blast
  then have "datasets e w name = (print w msg, Inr (u, t))"
    by (rule datasets_assign_result)
  moreover have "map_of catalog name = Some (u, t)"
    using d in_cat by simp
  ultimately show ?thesis
    by blast
qed

text \<open>
  C1. For a dataset name that is none of the names the function tests for, the final
  branch builds a ValueError object and drops it: the body ends with \<open>url\<close> and
  \<open>js_tag\<close> unassigned and the world untouched, no ValueError is raised, and the
  return statement is reached, where reading the unassigned \<open>url\<close> raises
  UnboundLocalError.
\<close>

theorem datasets_unknown_name:
  assumes "dataset \<notin> set dataset_names"
  shows "datasets_body e w dataset =
           (w, Inr \<lparr>url = None, js_tag = None,
                     discarded = Some (ValueError ''Dataset doesnt exist'')\<rparr>)
         \<and> (\<forall>msg. snd (datasets e w dataset) \<noteq> Inl (ValueError msg))
         \<and> datasets e w dataset = (w, Inl (UnboundLocalError ''url''))"
proof -
  have body: "datasets_body e w dataset =
           (w, Inr \<lparr>url = None, js_tag = None,
                     discarded = Some (ValueError ''Dataset doesnt exist'')\<rparr>)"
    using assms by (simp add: dataset_names_def datasets_body_def)
  have res: "datasets e w dataset = (w, Inl (UnboundLocalError ''url''))"
    by (simp add: datasets_def body ds_return_def)
  show ?thesis
    using body res by simp
qed

theorem datasets_unknown_name_witness:
  "''dft_4d'' \<notin> set dataset_names
   \<and> datasets_body example_env empty_world ''dft_4d'' =
           (empty_world, Inr \<lparr>url = None, js_tag = None,
                     discarded = Some (ValueError ''Dataset doesnt exist'')\<rparr>)
   \<and> datasets example_env empty_world ''dft_4d'' =
           (empty_world, Inl (UnboundLocalError ''url''))"
proof -
  have h: "''dft_4d'' \<notin> set dataset_names"
    by (simp add: dataset_names_def)
  show ?thesis
    using h datasets_unknown_name [OF h, of example_env empty_world] by simp
qed

text \<open>
  C4, as the claim states it, fails at \<open>stm_2d\<close>: the name is one the function tests
  for, and with an archive that lists a picture the call raises NameError instead of
  returning a URL and a file name.
\<close>

theorem datasets_stm_2d_counterexample:
  "''stm_2d'' \<in> set dataset_names
   \<and> snd (datasets example_env empty_world ''stm_2d'') = Inl (NameError ''mpimg'')"
  by (simp add: dataset_names_def datasets_def datasets_body_def ds_stm_2d_def
      requests_get_def example_env_def)

text \<open>
  C4, amended. For every name the function tests for other than \<open>stm_2d\<close>, the call
  returns the URL and the cached file name of that name's row of the catalog; it
  prints one line and touches neither the files nor the network.
\<close>

theorem datasets_catalogued:
  assumes "name \<in> set dataset_names" and "name \<noteq> ''stm_2d''"
  shows "\<exists>u t msg. map_of catalog name = Some (u, t)
           \<and> datasets e w name = (print w msg, Inr (u, t))"
  using assms by (rule datasets_known_returns)

theorem datasets_catalogued_witness:
  "''dft_3d'' \<in> set dataset_names \<and> ''dft_3d'' \<noteq> ''stm_2d''
   \<and> snd (datasets example_env empty_world ''dft_3d'') =
       Inr (''https://ndownloader.figshare.com/files/22471022'', ''jdft_3d-4-26-2020.json'')"
proof -
  have h1: "''dft_3d'' \<in> set dataset_names"
    by (simp add: dataset_names_def)
  have h2: "''dft_3d'' \<noteq> ''stm_2d''"
    by simp
  have m: "map_of catalog ''dft_3d'' =
      Some (''https://ndownloader.figshare.com/files/22471022'', ''jdft_3d-4-26-2020.json'')"
    by (simp add: catalog_def)
  from datasets_catalogued [OF h1 h2, of example_env empty_world] m
  have "snd (datasets example_env empty_world ''dft_3d'') =
       Inr (''https://ndownloader.figshare.com/files/22471022'', ''jdft_3d-4-26-2020.json'')"
    by auto
  then show ?thesis
    using h1 h2 by simp
qed

section \<open>Properties of data\<close>

lemma datasets_Inr_world:
  assumes "datasets e w dataset = (w0, Inr p)"
  shows "\<exists>msg. w0 = print w msg"
proof (cases "dataset \<in> set dataset_names")
  case False
  from datasets_unknown_raises [OF this, of e w] assms show ?thesis by simp
next
  case True
  show ?thesis
  proof (cases "dataset = ''stm_2d''")
    case True
    with datasets_stm_2d_raises [of e w] assms show ?thesis by auto
  next
    case False
    from datasets_known_returns [OF True False, of e w] assms show ?thesis by auto
  qed
qed

text \<open>
  C7. Let \<open>datasets\<close> return the URL \<open>u\<close> and the file name \<open>t\<close>; it has then
  touched neither the files nor the network. If the file of that name exists in the
  module's directory, \<open>data\<close> returns the JSON decoding of exactly its content and
  leaves files and fetch log as they were. If it does not exist and the download and
  the opening of the archive succeed, \<open>data\<close> fetches \<open>u\<close> once, the files
  afterwards are the old ones with \<open>tmp.zip\<close> written, every member of the archive
  extracted into the module's directory and \<open>tmp.zip\<close> removed again, and the
  result is the decoding of the file of name \<open>t\<close> read from these files.
\<close>

theorem data_cached_or_fetched:
  assumes "datasets e w dataset = (w0, Inr (u, t))"
  shows "files w0 = files w \<and> http_log w0 = http_log w
    \<and> (\<forall>stored. files w (path_join (module_dir e) t) = Some stored \<longrightarrow>
          data e w dataset = (w0, json_loads e stored))
    \<and> (files w (path_join (module_dir e) t) = None \<longrightarrow>
         (\<forall>content members.
            http_response e u = Inr content \<and> zip_members e content = Inr members \<longrightarrow>
            (let zfile = path_join (module_dir e) ''tmp.zip'';
                 fs = (extractall (module_dir e) members ((files w)(zfile \<mapsto> content)))
                        (zfile := None);
                 w4 = w0\<lparr>http_log := http_log w @ [u], files := fs\<rparr>
             in data e w dataset = (w4, loadjson e w4 (path_join (module_dir e) t)))))"
proof -
  from datasets_Inr_world [OF assms] obtain msg where w0: "w0 = print w msg"
    by blast
  then have same: "files w0 = files w" "http_log w0 = http_log w"
    by (simp_all add: print_def)
  have cached: "data e w dataset = (w0, json_loads e stored)"
    if "files w (path_join (module_dir e) t) = Some stored" for stored
    using that assms same by (simp add: data_def loadjson_def)
  have fetched: "data e w dataset =
      (w0\<lparr>http_log := http_log w @ [u],
           files := (extractall (module_dir e) members
                        ((files w)(path_join (module_dir e) ''tmp.zip'' \<mapsto> content)))
                     (path_join (module_dir e) ''tmp.zip'' := None)\<rparr>,
       loadjson e
         (w0\<lparr>http_log := http_log w @ [u],
           files := (extractall (module_dir e) members
                        ((files w)(path_join (module_dir e) ''tmp.zip'' \<mapsto> content)))
                     (path_join (module_dir e) ''tmp.zip'' := None)\<rparr>)
         (path_join (module_dir e) t))"
    if "files w (path_join (module_dir e) t) = None"
      and "http_response e u = Inr content" and "zip_members e content = Inr members"
    for content members
    using that assms same by (simp add: data_def requests_get_def Let_def loadjson_def)
  show ?thesis
    using same cached fetched by (simp add: Let_def)
qed

theorem data_cached_or_fetched_witness:
  "datasets example_data_env cached_world ''dft_3d'' =
     (print cached_world ''Obtaining 3D dataset ...'',
      Inr (''https://ndownloader.figshare.com/files/22471022'', ''jdft_3d-4-26-2020.json''))
   \<and> files cached_world ''/site/jarvis/db/jdft_3d-4-26-2020.json'' = Some ''[]''
   \<and> data example_data_env cached_world ''dft_3d'' =
       (print cached_world ''Obtaining 3D dataset ...'', Inr ''[]'')
   \<and> files empty_world ''/site/jarvis/db/jdft_3d-4-26-2020.json'' = None
   \<and> snd (data example_data_env empty_world ''dft_3d'') = Inr ''[{}]''
   \<and> http_log (fst (data example_data_env empty_world ''dft_3d'')) =
       [''https://ndownloader.figshare.com/files/22471022'']
   \<and> files (fst (data example_data_env empty_world ''dft_3d'')) ''/site/jarvis/db/tmp.zip'' = None
   \<and> files (fst (data example_data_env empty_world ''dft_3d''))
         ''/site/jarvis/db/jdft_3d-4-26-2020.json'' = Some ''[{}]''"
proof -
  have ds: "datasets example_data_env w ''dft_3d'' =
     (print w ''Obtaining 3D dataset ...'',
      Inr (''https://ndownloader.figshare.com/files/22471022'', ''jdft_3d-4-26-2020.json''))" for w
    by (simp add: datasets_def datasets_body_def ds_assign_def ds_return_def)
  have md: "module_dir example_data_env = ''/site/jarvis/db''"
    and jl: "json_loads example_data_env s = Inr s" for s
    by (simp_all add: example_data_env_def)
  have p: "path_join ''/site/jarvis/db'' ''jdft_3d-4-26-2020.json'' =
      ''/site/jarvis/db/jdft_3d-4-26-2020.json''"
    by (simp add: path_join_def)
  have z: "path_join ''/site/jarvis/db'' ''tmp.zip'' = ''/site/jarvis/db/tmp.zip''"
    by (simp add: path_join_def)
  have c: "files cached_world ''/site/jarvis/db/jdft_3d-4-26-2020.json'' = Some ''[]''"
    by (simp add: cached_world_def)
  have n: "files empty_world ''/site/jarvis/db/jdft_3d-4-26-2020.json'' = None"
    by (simp add: empty_world_def)
  have r: "http_response example_data_env ''https://ndownloader.figshare.com/files/22471022'' = Inr ''PK''
      \<and> zip_members example_data_env ''PK'' = Inr [(''jdft_3d-4-26-2020.json'', ''[{}]'')]"
    by (simp add: example_data_env_def)
  from data_cached_or_fetched [OF ds [of cached_world]] c
  have a: "data example_data_env cached_world ''dft_3d'' =
       (print cached_world ''Obtaining 3D dataset ...'', Inr ''[]'')"
    by (simp add: md p jl)
  from data_cached_or_fetched [OF ds [of empty_world]] n r
  have b: "data example_data_env empty_world ''dft_3d'' =
      (let zfile = ''/site/jarvis/db/tmp.zip'';
           fs = (extractall ''/site/jarvis/db'' [(''jdft_3d-4-26-2020.json'', ''[{}]'')]
                   ((files empty_world)(zfile \<mapsto> ''PK''))) (zfile := None);
           w4 = (print empty_world ''Obtaining 3D dataset ...'')
                  \<lparr>http_log := http_log empty_world @ [''https://ndownloader.figshare.com/files/22471022''],
                   files := fs\<rparr>
       in (w4, loadjson example_data_env w4 ''/site/jarvis/db/jdft_3d-4-26-2020.json''))"
    by (simp add: md p z Let_def)
  have b1: "snd (data example_data_env empty_world ''dft_3d'') = Inr ''[{}]''"
    and b2: "http_log (fst (data example_data_env empty_world ''dft_3d'')) =
       [''https://ndownloader.figshare.com/files/22471022'']"
    and b3: "files (fst (data example_data_env empty_world ''dft_3d'')) ''/site/jarvis/db/tmp.zip'' = None"
    and b4: "files (fst (data example_data_env empty_world ''dft_3d''))
         ''/site/jarvis/db/jdft_3d-4-26-2020.json'' = Some ''[{}]''"
    unfolding b
    by (simp_all add: Let_def loadjson_def extractall_def p jl empty_world_def print_def)
  show ?thesis
    using ds [of cached_world] c a n b1 b2 b3 b4 by simp
qed

section \<open>Properties of prepare_jdos\<close>

lemma count_base_cmd:
  "count_list (jdos_base_cmd dims mesh poscar gp n) dq = 6 + count_list poscar dq"
  by (simp add: jdos_base_cmd_def dq_def count_join_ints [unfolded dq_def]
      count_str_int [unfolded dq_def])

lemma prepare_jdos_prints:
  assumes "ir_mesh mesh (primitive obj) = Inr mapping"
  shows "prepare_jdos ir_mesh w obj poscar mesh sd temperatures n pa False =
           (print w (jdos_cmd (scell_dim obj) mesh poscar (np_unique mapping) temperatures n pa),
            Inr ())"
  using assms by (simp add: prepare_jdos_def)

text \<open>
  C9, as the claim states it, fails: with a temperature list and no \<open>pa\<close> the
  command holds an even number of double quotes, not an odd one. The text appended
  for the temperatures carries two quotes, the stray one and the one after \<open>--ts=\<close>.
\<close>

theorem jdos_cmd_ts_counterexample:
  "\<not> odd (count_list
      (jdos_cmd [2, 2, 2] [11, 11, 11] ''POSCAR-unitcell'' [0, 1, 2] (Some [300]) 201 None) dq)"
  by code_simp

text \<open>
  C9, amended. With a temperature list the command is the command without one followed
  by a double quote, the text \<open> --ts=\<close>, a double quote and the temperatures joined
  by blanks; the command without one ends with the \<open>--num-freq-points\<close> value, so the
  first of the two quotes is a stray one right after that value and nothing closes the
  second. When \<open>pa\<close> is None the command holds eight double quotes besides those of
  the \<open>poscar\<close> argument with a temperature list, and six without one.
\<close>

theorem jdos_cmd_ts:
  "jdos_cmd dims mesh poscar gp (Some ts) n None =
     jdos_cmd dims mesh poscar gp None n None @ [dq] @ '' --ts='' @ [dq] @ join '' '' (map str_int ts)
   \<and> jdos_cmd dims mesh poscar gp None n None =
       ''phono3py --fc2 --dim='' @ [dq] @ join '' '' (map str_int dims) @ [dq] @ '' --mesh='' @ [dq]
       @ join '' '' (map str_int mesh) @ [dq] @ '' -c '' @ poscar @ '' --jdos'' @ '' --gp='' @ [dq]
       @ join '' '' (map str_int gp) @ [dq] @ '' --num-freq-points='' @ str_int n
   \<and> count_list (jdos_cmd dims mesh poscar gp (Some ts) n None) dq = 8 + count_list poscar dq
   \<and> count_list (jdos_cmd dims mesh poscar gp None n None) dq = 6 + count_list poscar dq"
proof -
  have a: "jdos_cmd dims mesh poscar gp (Some ts) n None =
     jdos_cmd dims mesh poscar gp None n None @ [dq] @ '' --ts='' @ [dq] @ join '' '' (map str_int ts)"
    by (simp add: jdos_cmd_def)
  have b: "jdos_cmd dims mesh poscar gp None n None = jdos_base_cmd dims mesh poscar gp n"
    by (simp add: jdos_cmd_def)
  have d: "count_list (jdos_cmd dims mesh poscar gp (Some ts) n None) dq = 8 + count_list poscar dq"
    unfolding a b
    by (simp add: dq_def count_base_cmd [unfolded dq_def] count_join_ints [unfolded dq_def])
  show ?thesis
    using a d by (simp add: b count_base_cmd) (simp add: jdos_base_cmd_def)
qed

section \<open>Properties of JDOS.select_jdos\<close>

lemma jdos_value_inside:
  assumes "i < length N2"
  shows "jdos_value N2 i = Inr ((N2 ! i + (if i = 0 then last N2 else N2 ! (i - 1))) / 2)"
proof (cases "i = 0")
  case True
  with assms have ne: "N2 \<noteq> []" by auto
  have "np_index N2 0 = Inr (N2 ! 0)"
    using ne by (simp add: np_index_def)
  with True ne show ?thesis
    by (simp add: jdos_value_def np_index_minus_one)
next
  case False
  then have e: "int i - 1 = int (i - 1)" by simp
  from assms have "i - 1 < length N2" by simp
  then have "np_index N2 (int i - 1) = Inr (N2 ! (i - 1))"
    unfolding e by (rule np_index_nat)
  then show ?thesis
    using False assms by (simp add: jdos_value_def np_index_nat)
qed

lemma sorted_hd_le: "sorted xs \<Longrightarrow> b \<in> set xs \<Longrightarrow> hd xs \<le> (b::real)"
  by (cases xs) auto

lemma digitize_below_first:
  assumes "sorted bins" and "bins \<noteq> []" and "(x::real) < hd bins"
  shows "length (filter (\<lambda>b. b \<le> x) bins) = 0"
proof -
  have "\<forall>b \<in> set bins. \<not> b \<le> x"
    using assms sorted_hd_le [of bins] by fastforce
  then have "filter (\<lambda>b. b \<le> x) bins = []"
    by (simp add: filter_empty_conv)
  then show ?thesis by simp
qed

lemma digitize_inside:
  assumes "bins \<noteq> []" and "(x::real) < last bins"
  shows "length (filter (\<lambda>b. b \<le> x) bins) < length bins"
proof (rule length_filter_less)
  show "last bins \<in> set bins" using assms by simp
  show "\<not> last bins \<le> x" using assms by simp
qed

lemma map2_columns:
  "map2 f (map g rows) (map h rows) = map (\<lambda>r. f (g r) (h r)) rows"
  by (induction rows) simp_all

lemma jdos_row_bins:
  assumes "rows \<noteq> []"
    and "list_all (\<lambda>r. 3 \<le> length r) rows"
    and "sorted (map (\<lambda>r. r ! 0) rows)"
    and "\<forall>x \<in> set fs. x < last rows ! 0"
  shows "jdos_row (Arr2 rows) fs =
           Inr (map (\<lambda>x. let N2 = map (\<lambda>r. r ! 1 + r ! 2) rows;
                              i = length (filter (\<lambda>b. b \<le> x) (map (\<lambda>r. r ! 0) rows))
                          in (N2 ! i + (if i = 0 then last N2 else N2 ! (i - 1))) / 2) fs)
         \<and> (\<forall>x \<in> set fs. x < hd rows ! 0 \<longrightarrow>
               np_digitize [x] (map (\<lambda>r. r ! 0) rows) = Inr [0]
               \<and> jdos_row (Arr2 rows) [x] =
                   Inr [((hd rows ! 1 + hd rows ! 2) + (last rows ! 1 + last rows ! 2)) / 2])"
proof -
  define freq where "freq = map (\<lambda>r. r ! 0) rows"
  define N2 where "N2 = map (\<lambda>r. r ! 1 + r ! 2) rows"
  have wide: "list_all (\<lambda>r. 0 < length r) rows" "list_all (\<lambda>r. 1 < length r) rows"
    "list_all (\<lambda>r. 2 < length r) rows"
    using assms(2) by (auto simp: list_all_iff)
  have freq_ne: "freq \<noteq> []" and n2_len: "length N2 = length freq"
    using assms(1) by (simp_all add: freq_def N2_def)
  have last_freq: "last freq = last rows ! 0"
    using assms(1) by (simp add: freq_def last_map)
  have hd_freq: "hd freq = hd rows ! 0"
    using assms(1) by (simp add: freq_def hd_map)
  have row: "jdos_row (Arr2 rows) ys =
      emap (jdos_value N2) (map (\<lambda>x. length (filter (\<lambda>b. b \<le> x) freq)) ys)" for ys
    using wide assms(3)
    by (simp add: jdos_row_def np_digitize_def map2_columns freq_def N2_def)
  have val: "jdos_value N2 (length (filter (\<lambda>b. b \<le> x) freq)) =
      Inr (let i = length (filter (\<lambda>b. b \<le> x) freq)
           in (N2 ! i + (if i = 0 then last N2 else N2 ! (i - 1))) / 2)"
    if "x < last freq" for x
    using digitize_inside [OF freq_ne that] jdos_value_inside [of _ N2]
    by (simp add: n2_len Let_def)
  have first: "jdos_row (Arr2 rows) fs =
      Inr (map (\<lambda>x. let i = length (filter (\<lambda>b. b \<le> x) freq)
                     in (N2 ! i + (if i = 0 then last N2 else N2 ! (i - 1))) / 2) fs)"
    unfolding row
  proof (rule emap_map_total)
    fix x
    assume "x \<in> set fs"
    with assms(4) have "x < last freq"
      by (simp add: last_freq)
    then show "jdos_value N2 (length (filter (\<lambda>b. b \<le> x) freq)) =
      Inr (let i = length (filter (\<lambda>b. b \<le> x) freq)
           in (N2 ! i + (if i = 0 then last N2 else N2 ! (i - 1))) / 2)"
      by (rule val)
  qed
  have second: "np_digitize [x] freq = Inr [0]
      \<and> jdos_row (Arr2 rows) [x] =
          Inr [((hd rows ! 1 + hd rows ! 2) + (last rows ! 1 + last rows ! 2)) / 2]"
    if "x \<in> set fs" "x < hd rows ! 0" for x
  proof -
    have "sorted freq"
      using assms(3) by (simp add: freq_def)
    moreover have "x < hd freq"
      using that(2) by (simp add: hd_freq)
    ultimately have zero: "length (filter (\<lambda>b. b \<le> x) freq) = 0"
      using freq_ne digitize_below_first [of freq x] by simp
    have n2_0: "N2 ! 0 = hd rows ! 1 + hd rows ! 2"
      using assms(1) by (simp add: N2_def hd_conv_nth)
    have n2_last: "last N2 = last rows ! 1 + last rows ! 2"
      using assms(1) by (simp add: N2_def last_map)
    have "0 < length N2"
      using freq_ne n2_len by simp
    then have "jdos_value N2 0 = Inr ((N2 ! 0 + last N2) / 2)"
      using jdos_value_inside [of 0 N2] by simp
    then show ?thesis
      using zero assms(3) by (simp add: row np_digitize_def n2_0 n2_last freq_def [symmetric])
  qed
  show ?thesis
    using first second by (simp add: freq_def N2_def Let_def)
qed

lemma zip_upt_nth: "zip [0..<length xs] xs = map (\<lambda>g. (g, xs ! g)) [0..<length xs]"
  by (rule nth_equalityI) simp_all

lemma jdos_row_bin_average:
  assumes "rows \<noteq> []"
    and "list_all (\<lambda>r. 3 \<le> length r) rows"
    and "sorted (map (\<lambda>r. r ! 0) rows)"
    and "\<forall>x \<in> set fs. x < last rows ! 0"
  shows "jdos_row (Arr2 rows) fs = Inr (map (bin_average rows) fs)"
  using jdos_row_bins [OF assms] by (simp add: bin_average_def Let_def)

lemma bin_average_below_first:
  assumes "rows \<noteq> []" and "sorted (map (\<lambda>r. r ! 0) rows)" and "x < hd rows ! 0"
  shows "bin_average rows x = ((hd rows ! 1 + hd rows ! 2) + (last rows ! 1 + last rows ! 2)) / 2"
proof -
  have "x < hd (map (\<lambda>r. r ! 0) rows)"
    using assms(1,3) by (simp add: hd_map)
  then have "length (filter (\<lambda>b. b \<le> x) (map (\<lambda>r. r ! 0) rows)) = 0"
    using digitize_below_first [of "map (\<lambda>r. r ! 0) rows" x] assms(1,2) by simp
  then show ?thesis
    using assms(1) by (simp add: bin_average_def Let_def last_map hd_conv_nth)
qed

text \<open>
  C10. Let spglib give the grid points, let the frequency table be rectangular with
  a row for every distinct grid point, and let the file of every distinct grid point
  load as a table of at least three columns whose first column ascends and whose last
  bin edge lies above every branch frequency of that grid point. Then
  \<open>select_jdos\<close> returns, row by row and branch by branch, the value
  \<open>(N2[i] + N2[i - 1]) / 2\<close> with \<open>i\<close> the number of bin edges at or below the
  branch frequency (\<open>bin_average\<close>). For a frequency below the first bin edge
  \<open>np.digitize\<close> gives 0 and that value is the mean of the first and the last
  element of \<open>N2\<close>: the index \<open>-1\<close> wraps around to the end of the array.
\<close>

theorem select_jdos_values:
  assumes "ir_mesh (j_mesh self) (primitive (j_phonopy_obj self)) = Inr gridpt_list"
    and "j_frequencies self \<noteq> []"
    and "length (np_unique gridpt_list) \<le> length (j_frequencies self)"
    and "\<forall>f \<in> set (j_frequencies self). length f = length (hd (j_frequencies self))"
    and "\<forall>g < length (np_unique gridpt_list).
           genfromtxt (jdos_file (j_directory self) (j_mesh self) (np_unique gridpt_list ! g)
                         (j_temperature self)) = Inr (Arr2 (tables g))
           \<and> tables g \<noteq> []
           \<and> list_all (\<lambda>r. 3 \<le> length r) (tables g)
           \<and> sorted (map (\<lambda>r. r ! 0) (tables g))
           \<and> (\<forall>x \<in> set (j_frequencies self ! g). x < last (tables g) ! 0)"
  shows "select_jdos ir_mesh genfromtxt self =
           Inr (map (\<lambda>g. map (bin_average (tables g)) (j_frequencies self ! g))
                  [0..<length (np_unique gridpt_list)])
         \<and> (\<forall>g < length (np_unique gridpt_list). \<forall>x.
               x < hd (tables g) ! 0 \<longrightarrow>
               np_digitize [x] (map (\<lambda>r. r ! 0) (tables g)) = Inr [0]
               \<and> bin_average (tables g) x =
                   ((hd (tables g) ! 1 + hd (tables g) ! 2)
                    + (last (tables g) ! 1 + last (tables g) ! 2)) / 2)"
proof -
  let ?uids = "np_unique gridpt_list"
  let ?freqs = "j_frequencies self"
  obtain f0 rest where fr: "?freqs = f0 # rest"
    using assms(2) by (cases ?freqs) auto
  have step: "jdos_step genfromtxt self (length f0) (g, ?uids ! g) =
      Inr (map (bin_average (tables g)) (?freqs ! g))" if "g \<in> set [0..<length ?uids]" for g
  proof -
    from that have g: "g < length ?uids" by simp
    with assms(3) have gf: "g < length ?freqs" by simp
    from assms(5) g have
      loaded: "genfromtxt (jdos_file (j_directory self) (j_mesh self) (?uids ! g)
               (j_temperature self)) = Inr (Arr2 (tables g))"
      and ne: "tables g \<noteq> []"
      and wide: "list_all (\<lambda>r. 3 \<le> length r) (tables g)"
      and asc: "sorted (map (\<lambda>r. r ! 0) (tables g))"
      and inside: "\<forall>x \<in> set (?freqs ! g). x < last (tables g) ! 0"
      by blast+
    have idx: "np_index ?freqs (int g) = Inr (?freqs ! g)"
      using gf by (rule np_index_nat)
    have row: "jdos_row (Arr2 (tables g)) (?freqs ! g) =
        Inr (map (bin_average (tables g)) (?freqs ! g))"
      using ne wide asc inside by (rule jdos_row_bin_average)
    have "?freqs ! g \<in> set ?freqs"
      using gf by simp
    with assms(4) have "length (?freqs ! g) = length (hd ?freqs)"
      by blast
    then have len: "length (?freqs ! g) = length f0"
      by (simp add: fr)
    show ?thesis
      by (simp add: jdos_step_def loaded idx row len)
  qed
  have "select_jdos ir_mesh genfromtxt self =
      emap (jdos_step genfromtxt self (length f0)) (map (\<lambda>g. (g, ?uids ! g)) [0..<length ?uids])"
    by (simp add: select_jdos_def assms(1) fr Let_def zip_upt_nth del: upt_Suc)
  also have "\<dots> = Inr (map (\<lambda>g. map (bin_average (tables g)) (?freqs ! g)) [0..<length ?uids])"
    using step by (rule emap_map_total)
  finally have first: "select_jdos ir_mesh genfromtxt self =
      Inr (map (\<lambda>g. map (bin_average (tables g)) (?freqs ! g)) [0..<length ?uids])" .
  have second: "np_digitize [x] (map (\<lambda>r. r ! 0) (tables g)) = Inr [0]
      \<and> bin_average (tables g) x =
          ((hd (tables g) ! 1 + hd (tables g) ! 2)
           + (last (tables g) ! 1 + last (tables g) ! 2)) / 2"
    if "g < length ?uids" "x < hd (tables g) ! 0" for g x
  proof -
    from assms(5) that(1) have ne: "tables g \<noteq> []"
      and asc: "sorted (map (\<lambda>r. r ! 0) (tables g))"
      by blast+
    have "x < hd (map (\<lambda>r. r ! 0) (tables g))"
      using ne that(2) by (simp add: hd_map)
    then have "length (filter (\<lambda>b. b \<le> x) (map (\<lambda>r. r ! 0) (tables g))) = 0"
      using digitize_below_first [of "map (\<lambda>r. r ! 0) (tables g)" x] ne asc by simp
    then have "np_digitize [x] (map (\<lambda>r. r ! 0) (tables g)) = Inr [0]"
      using asc by (simp add: np_digitize_def)
    then show ?thesis
      using bin_average_below_first [OF ne asc that(2)] by simp
  qed
  show ?thesis
    using first second by blast
qed

theorem select_jdos_values_witness:
  "select_jdos (\<lambda>m c. Inr [0, 0]) (\<lambda>f. Inr (Arr2 jdos_example_rows)) example_jdos =
     Inr [[22, 33 / 2]]
   \<and> 1 / 2 < hd jdos_example_rows ! 0
   \<and> np_digitize [1 / 2] (map (\<lambda>r. r ! 0) jdos_example_rows) = Inr [0]
   \<and> bin_average jdos_example_rows (1 / 2) = (11 + 33) / 2"
proof -
  have u: "np_unique [0, 0] = [0]"
    by (simp add: np_unique_def)
  have h1: "(\<lambda>m c. Inr [0, 0]) (j_mesh example_jdos) (primitive (j_phonopy_obj example_jdos)) =
      (Inr [0, 0] :: pyerror + int list)"
    by simp
  have h2: "j_frequencies example_jdos \<noteq> []"
    by (simp add: example_jdos_def)
  have h3: "length (np_unique [0, 0]) \<le> length (j_frequencies example_jdos)"
    by (simp add: u example_jdos_def)
  have h4: "\<forall>f \<in> set (j_frequencies example_jdos). length f = length (hd (j_frequencies example_jdos))"
    by (simp add: example_jdos_def)
  have h5: "\<forall>g < length (np_unique [0, 0]).
           (\<lambda>f. Inr (Arr2 jdos_example_rows))
             (jdos_file (j_directory example_jdos) (j_mesh example_jdos) (np_unique [0, 0] ! g)
                (j_temperature example_jdos)) = (Inr (Arr2 ((\<lambda>g. jdos_example_rows) g)) :: pyerror + ndarray)
           \<and> (\<lambda>g. jdos_example_rows) g \<noteq> []
           \<and> list_all (\<lambda>r. 3 \<le> length r) ((\<lambda>g. jdos_example_rows) g)
           \<and> sorted (map (\<lambda>r. r ! 0) ((\<lambda>g. jdos_example_rows) g))
           \<and> (\<forall>x \<in> set (j_frequencies example_jdos ! g). x < last ((\<lambda>g. jdos_example_rows) g) ! 0)"
    by (simp add: u example_jdos_def jdos_example_rows_def)
  have below: "1 / 2 < hd jdos_example_rows ! 0"
    by (simp add: jdos_example_rows_def)
  have b1: "bin_average jdos_example_rows (1 / 2) = 22"
    and b2: "bin_average jdos_example_rows (3 / 2) = 33 / 2"
    by (simp_all add: bin_average_def jdos_example_rows_def)
  note t = select_jdos_values [where ir_mesh = "\<lambda>m c. Inr [0, 0]" and self = example_jdos
      and gridpt_list = "[0, 0]" and genfromtxt = "\<lambda>f. Inr (Arr2 jdos_example_rows)"
      and tables = "\<lambda>g. jdos_example_rows", OF h1 h2 h3 h4 h5]
  from t have a: "select_jdos (\<lambda>m c. Inr [0, 0]) (\<lambda>f. Inr (Arr2 jdos_example_rows)) example_jdos =
     Inr [[22, 33 / 2]]"
    by (simp add: u example_jdos_def b1 b2)
  from t below have b: "np_digitize [1 / 2] (map (\<lambda>r. r ! 0) jdos_example_rows) = Inr [0]"
    by (simp add: u)
  show ?thesis
    using a below b b1 by simp
qed

section \<open>Properties of Kappa.kappa\<close>

lemma list_index_found:
  "x \<in> set xs \<Longrightarrow> \<exists>i < length xs. list_index xs x = Inr i \<and> xs ! i = x \<and> (\<forall>j < i. xs ! j \<noteq> x)"
proof (induction xs)
  case Nil
  then show ?case by simp
next
  case (Cons y ys)
  show ?case
  proof (cases "y = x")
    case True
    then show ?thesis by auto
  next
    case False
    with Cons.prems have "x \<in> set ys" by simp
    from Cons.IH [OF this] obtain i where i: "i < length ys" "list_index ys x = Inr i"
      "ys ! i = x" "\<forall>j < i. ys ! j \<noteq> x"
      by blast
    have "\<forall>j < Suc i. (y # ys) ! j \<noteq> x"
      using False i(4) by (auto simp: less_Suc_eq_0_disj)
    with False i show ?thesis
      by (intro exI [of _ "Suc i"]) simp
  qed
qed

text \<open>
  C5, as the claim states it, fails: an object built with two temperatures over a
  file that stores one row of kappa raises IndexError for the second temperature,
  although that temperature is in the list.
\<close>

theorem kappa_index_counterexample:
  "300 \<in> set (k_temperatures kappa_example) \<and> kappa kappa_example 300 = Inl IndexError"
  by (simp add: kappa_example_def kappa_def dict_get_def np_index_def)

text \<open>
  C5, amended. A temperature that is not in the list raises the generic exception.
  A temperature that is in the list, when the file stores under \<open>kappa\<close> at least as
  many rows as the list has temperatures, none of them empty, raises nothing: the
  row at the first position of the temperature in the list is returned for the format
  \<open>tensor\<close>, its first component for \<open>scalar_xx\<close>, and None for any other format.
\<close>

theorem kappa_lookup:
  "(T \<notin> set (k_temperatures self) \<longrightarrow>
      kappa self T = Inl (GenericException ''Kappa not evaluated at this temperature.''))
   \<and> (T \<in> set (k_temperatures self) \<and> k_dict self ''kappa'' = Some k
        \<and> length (k_temperatures self) \<le> length k \<and> list_all (\<lambda>row. row \<noteq> []) k \<longrightarrow>
      (\<exists>i < length (k_temperatures self).
          k_temperatures self ! i = T \<and> (\<forall>j < i. k_temperatures self ! j \<noteq> T)
          \<and> kappa self T =
              (if k_kappa_format self = ''tensor'' then Inr (Tensor (k ! i))
               else if k_kappa_format self = ''scalar_xx'' then Inr (Scalar (k ! i ! 0))
               else Inr PyNone)))"
proof (intro conjI impI)
  assume "T \<notin> set (k_temperatures self)"
  then show "kappa self T = Inl (GenericException ''Kappa not evaluated at this temperature.'')"
    by (simp add: kappa_def)
next
  assume a: "T \<in> set (k_temperatures self) \<and> k_dict self ''kappa'' = Some k
        \<and> length (k_temperatures self) \<le> length k \<and> list_all (\<lambda>row. row \<noteq> []) k"
  then obtain i where i: "i < length (k_temperatures self)"
      "list_index (k_temperatures self) T = Inr i"
      "k_temperatures self ! i = T" "\<forall>j < i. k_temperatures self ! j \<noteq> T"
    using list_index_found [of T "k_temperatures self"] by blast
  from a i(1) have ik: "i < length k" by simp
  then have row: "np_index k (int i) = Inr (k ! i)"
    by (simp add: np_index_def)
  from a ik have "k ! i \<noteq> []"
    by (simp add: list_all_length)
  then have first: "np_index (k ! i) 0 = Inr (k ! i ! 0)"
    by (simp add: np_index_def)
  have "kappa self T =
          (if k_kappa_format self = ''tensor'' then Inr (Tensor (k ! i))
           else if k_kappa_format self = ''scalar_xx'' then Inr (Scalar (k ! i ! 0))
           else Inr PyNone)"
    using a i(2) row first by (simp add: kappa_def dict_get_def)
  with i show "\<exists>i < length (k_temperatures self).
          k_temperatures self ! i = T \<and> (\<forall>j < i. k_temperatures self ! j \<noteq> T)
          \<and> kappa self T =
              (if k_kappa_format self = ''tensor'' then Inr (Tensor (k ! i))
               else if k_kappa_format self = ''scalar_xx'' then Inr (Scalar (k ! i ! 0))
               else Inr PyNone)"
    by blast
qed

theorem kappa_lookup_witness:
  "200 \<notin> set (k_temperatures kappa_example_full)
   \<and> kappa kappa_example_full 200 =
       Inl (GenericException ''Kappa not evaluated at this temperature.'')
   \<and> 300 \<in> set (k_temperatures kappa_example_full)
   \<and> kappa kappa_example_full 300 = Inr (Scalar 7)"
proof -
  have h1: "200 \<notin> set (k_temperatures kappa_example_full)"
    by (simp add: kappa_example_full_def)
  have h2: "300 \<in> set (k_temperatures kappa_example_full)
      \<and> k_dict kappa_example_full ''kappa'' = Some [[1, 2, 3, 4, 5, 6], [7, 8, 9, 10, 11, 12]]
      \<and> length (k_temperatures kappa_example_full) \<le> length [[1, 2, 3, 4, 5, 6], [7, 8, 9, 10, 11, 12 :: real]]
      \<and> list_all (\<lambda>row. row \<noteq> []) [[1, 2, 3, 4, 5, 6], [7, 8, 9, 10, 11, 12 :: real]]"
    by (simp add: kappa_example_full_def)
  from kappa_lookup [of 200 kappa_example_full] h1
  have a: "kappa kappa_example_full 200 =
       Inl (GenericException ''Kappa not evaluated at this temperature.'')"
    by blast
  from kappa_lookup [of 300 kappa_example_full "[[1, 2, 3, 4, 5, 6], [7, 8, 9, 10, 11, 12]]"] h2
  obtain i where i: "i < length (k_temperatures kappa_example_full)"
      "k_temperatures kappa_example_full ! i = 300"
      "kappa kappa_example_full 300 =
         (if k_kappa_format kappa_example_full = ''tensor''
          then Inr (Tensor ([[1, 2, 3, 4, 5, 6], [7, 8, 9, 10, 11, 12]] ! i))
          else if k_kappa_format kappa_example_full = ''scalar_xx''
          then Inr (Scalar ([[1, 2, 3, 4, 5, 6], [7, 8, 9, 10, 11, 12]] ! i ! 0))
          else Inr PyNone)"
    by blast
  from i(1) i(2) have "i = 1"
    by (cases i) (auto simp: kappa_example_full_def)
  with i(3) have b: "kappa kappa_example_full 300 = Inr (Scalar 7)"
    by (simp add: kappa_example_full_def)
  show ?thesis
    using h1 h2 a b by simp
qed

section \<open>Properties of get_wann_electron and get_wann_phonon\<close>

lemma we_loop_no_match:
  "list_all (no_match jid) entries \<Longrightarrow> we_loop e we jid wld l entries = (wld, Inr l)"
proof (induction entries)
  case Nil
  show ?case by simp
next
  case (Cons i rest)
  then show ?case
    by (cases i) (auto simp: dict_get_def split: option.splits)
qed

lemma wp_loop_no_match:
  "list_all (\<lambda>i. i = NonDict \<or> no_match jid i) entries \<Longrightarrow>
     wp_loop e we jid factor wld entries = (wld, Inr None)"
proof (induction entries)
  case Nil
  show ?case by simp
next
  case (Cons i rest)
  then show ?case
    by (cases i) (auto simp: dict_get_def split: option.splits)
qed

lemma get_wann_electron_no_match:
  assumes "fls ''WANN'' = Some entries" and "list_all (no_match jid) entries"
  shows "get_wann_electron e we fls wld jid = (wld, Inl (UnboundLocalError ''atoms''))"
  using assms by (simp add: get_wann_electron_def dict_get_def we_loop_no_match)

lemma get_wann_phonon_no_match:
  assumes "phonopy_importable we" and "fls ''FD-ELAST'' = Some entries"
    and "list_all (\<lambda>i. i = NonDict \<or> no_match jid i) entries"
  shows "get_wann_phonon e we fls wld jid factor = (wld, Inr None)"
  using assms by (simp add: get_wann_phonon_def dict_get_def wp_loop_no_match)

text \<open>
  C6 at a concrete index that has no entry for the identifier asked for:
  \<open>get_wann_phonon\<close> returns None, but \<open>get_wann_electron\<close> raises
  UnboundLocalError at its return statement, because \<open>atoms\<close>, unlike \<open>w\<close> and
  \<open>ef\<close>, is assigned only inside the matching branch.
\<close>

theorem get_wann_electron_missing_jid:
  "get_wann_electron example_env example_wann_env example_fls empty_world ''JVASP-0'' =
     (empty_world, Inl (UnboundLocalError ''atoms''))
   \<and> get_wann_phonon example_env example_wann_env example_fls empty_world ''JVASP-0'' 15.633302 =
     (empty_world, Inr None)"
  by (simp add: get_wann_electron_def get_wann_phonon_def example_fls_def
      example_wann_env_def dict_get_def)

section \<open>Properties of prepare_gruneisen_quasiharmonic\<close>

lemma splitlines_no_break:
  "l \<in> set (splitlines s) \<Longrightarrow> c \<in> set l \<Longrightarrow> \<not> is_linebreak c"
proof (induction s arbitrary: l rule: splitlines.induct)
  case 1
  then show ?case by simp
next
  case (2 c')
  then show ?case by (auto split: if_splits)
next
  case (3 c' d cs)
  show ?case
  proof (cases "is_linebreak c'")
    case True
    with 3 show ?thesis
      by (auto split: if_splits)
  next
    case False
    show ?thesis
    proof (cases "splitlines (d # cs)")
      case Nil
      with False 3 show ?thesis by auto
    next
      case (Cons l0 ls)
      with False "3.prems" have "l = c' # l0 \<or> l \<in> set ls"
        by auto
      then show ?thesis
      proof
        assume l: "l = c' # l0"
        show ?thesis
        proof (cases "c = c'")
          case True
          with False show ?thesis by simp
        next
          case ne: False
          with l "3.prems"(2) have "c \<in> set l0" by simp
          moreover have "l0 \<in> set (splitlines (d # cs))"
            using Cons by simp
          ultimately show ?thesis
            using "3.IH"(3) [OF False] by blast
        qed
      next
        assume "l \<in> set ls"
        then have "l \<in> set (splitlines (d # cs))"
          using Cons by simp
        with "3.IH"(3) [OF False] "3.prems"(2) show ?thesis by blast
      qed
    qed
  qed
qed

lemma lines_of_single: "LF \<notin> set x \<Longrightarrow> lines_of x = [x]"
  by (induction x) auto

lemma lines_of_append: "LF \<notin> set x \<Longrightarrow> lines_of (x @ LF # rest) = x # lines_of rest"
  by (induction x) auto

lemma lines_of_join:
  "xs \<noteq> [] \<Longrightarrow> \<forall>x \<in> set xs. LF \<notin> set x \<Longrightarrow> lines_of (join [LF] xs) = xs"
proof (induction xs rule: induct_list012)
  case 1
  then show ?case by simp
next
  case (2 x)
  then show ?case by (simp add: lines_of_single)
next
  case (3 x y zs)
  then show ?case by (simp add: lines_of_append)
qed

lemma no_LF_update:
  assumes "\<forall>x \<in> set xs. LF \<notin> set x" and "LF \<notin> set y"
  shows "\<forall>x \<in> set (xs[i := y]). LF \<notin> set x"
  using assms set_update_subset_insert [of xs i y] by auto

text \<open>
  C8, as the claim states it, fails for the scale factor zero: the division raises
  before either file is opened, and nothing is written.
\<close>

theorem gruneisen_zero_scale_counterexample:
  "prepare_gruneisen_quasiharmonic int_ops poscar_world ''POSCAR'' 0 =
     (poscar_world, Inl ZeroDivisionError)
   \<and> files poscar_world ''POSCAR-plus'' = None
   \<and> files poscar_world ''POSCAR-minus'' = None"
proof -
  have sp: "splitlines (universal_newlines poscar_text) = [''Si'', ''6'', ''0 1 1'']"
    by code_simp
  show ?thesis
    by (simp add: prepare_gruneisen_quasiharmonic_def poscar_world_def sp np_index_def
        int_ops_def)
qed

text \<open>
  C8, amended. Let the input file exist and have at least two lines, the second of
  which reads as a number, and let the division by \<open>scale\<close> succeed (a scale other
  than zero); the text \<open>str\<close> gives for a number holds no line feed. Then the call
  returns, the lines of the file POSCAR-plus are the lines of the input with the second
  replaced by the text of the product, the lines of POSCAR-minus are the lines of the
  input with the second replaced by the text of the quotient, and no other file
  changes.
\<close>

theorem gruneisen_poscar_lines:
  assumes "files w orig_poscar = Some content"
    and "1 < length (splitlines (universal_newlines content))"
    and "float_of_str ops (splitlines (universal_newlines content) ! 1) = Inr v"
    and "fdiv ops v scale = Inr q"
    and "LF \<notin> set (str_of_float ops (fmul ops v scale))"
    and "LF \<notin> set (str_of_float ops q)"
  shows "snd (prepare_gruneisen_quasiharmonic ops w orig_poscar scale) = Inr ()
         \<and> map_option lines_of
               (files (fst (prepare_gruneisen_quasiharmonic ops w orig_poscar scale)) ''POSCAR-plus'') =
             Some ((splitlines (universal_newlines content))
                     [1 := str_of_float ops (fmul ops v scale)])
         \<and> map_option lines_of
               (files (fst (prepare_gruneisen_quasiharmonic ops w orig_poscar scale)) ''POSCAR-minus'') =
             Some ((splitlines (universal_newlines content))[1 := str_of_float ops q])
         \<and> (\<forall>p. p \<noteq> ''POSCAR-plus'' \<and> p \<noteq> ''POSCAR-minus'' \<longrightarrow>
               files (fst (prepare_gruneisen_quasiharmonic ops w orig_poscar scale)) p = files w p)"
proof -
  define pos_text where "pos_text = splitlines (universal_newlines content)"
  define plus where "plus = join [LF] (pos_text[1 := str_of_float ops (fmul ops v scale)])"
  define minus where "minus = join [LF] (pos_text[1 := str_of_float ops q])"
  define w' where "w' = write_file (write_file w ''POSCAR-plus'' plus) ''POSCAR-minus'' minus"
  have len: "1 < length pos_text"
    using assms(2) by (simp add: pos_text_def)
  have ne: "pos_text \<noteq> []"
    using len by auto
  have clean: "\<forall>x \<in> set pos_text. LF \<notin> set x"
    using splitlines_no_break [of _ "universal_newlines content" LF]
    by (auto simp: pos_text_def is_linebreak_def)
  have idx: "np_index pos_text 1 = Inr (pos_text ! 1)"
    using len by (simp add: np_index_def)
  have run: "prepare_gruneisen_quasiharmonic ops w orig_poscar scale = (w', Inr ())"
    using assms(1,3,4) idx
    by (simp add: prepare_gruneisen_quasiharmonic_def Let_def pos_text_def [symmetric]
        w'_def plus_def minus_def)
  have fp: "files w' ''POSCAR-plus'' = Some plus"
    and fm: "files w' ''POSCAR-minus'' = Some minus"
    and frame: "\<forall>p. p \<noteq> ''POSCAR-plus'' \<and> p \<noteq> ''POSCAR-minus'' \<longrightarrow> files w' p = files w p"
    by (simp_all add: w'_def write_file_def)
  have lp: "lines_of plus = pos_text[1 := str_of_float ops (fmul ops v scale)]"
    unfolding plus_def
    using ne no_LF_update [OF clean assms(5)] by (intro lines_of_join) auto
  have lm: "lines_of minus = pos_text[1 := str_of_float ops q]"
    unfolding minus_def
    using ne no_LF_update [OF clean assms(6)] by (intro lines_of_join) auto
  show ?thesis
    using fp fm frame lp lm unfolding run pos_text_def by simp
qed

theorem gruneisen_poscar_lines_witness:
  "files poscar_world ''POSCAR'' = Some poscar_text
   \<and> splitlines (universal_newlines poscar_text) = [''Si'', ''6'', ''0 1 1'']
   \<and> snd (prepare_gruneisen_quasiharmonic int_ops poscar_world ''POSCAR'' 3) = Inr ()
   \<and> map_option lines_of
         (files (fst (prepare_gruneisen_quasiharmonic int_ops poscar_world ''POSCAR'' 3))
            ''POSCAR-plus'') = Some [''Si'', ''18'', ''0 1 1'']
   \<and> map_option lines_of
         (files (fst (prepare_gruneisen_quasiharmonic int_ops poscar_world ''POSCAR'' 3))
            ''POSCAR-minus'') = Some [''Si'', ''2'', ''0 1 1'']"
proof -
  have h1: "files poscar_world ''POSCAR'' = Some poscar_text"
    by (simp add: poscar_world_def)
  have sp: "splitlines (universal_newlines poscar_text) = [''Si'', ''6'', ''0 1 1'']"
    by code_simp
  have h2: "1 < length (splitlines (universal_newlines poscar_text))"
    unfolding sp by simp
  have h3: "float_of_str int_ops (splitlines (universal_newlines poscar_text) ! 1) = Inr 6"
    unfolding sp by (simp add: int_ops_def)
  have h4: "fdiv int_ops 6 3 = Inr 2"
    by (simp add: int_ops_def)
  have s18: "str_of_float int_ops (fmul int_ops 6 3) = ''18''"
    by code_simp
  have s2: "str_of_float int_ops 2 = ''2''"
    by code_simp
  have h5: "LF \<notin> set (str_of_float int_ops (fmul int_ops 6 3))"
    unfolding s18 by (simp add: LF_def)
  have h6: "LF \<notin> set (str_of_float int_ops 2)"
    unfolding s2 by (simp add: LF_def)
  note t = gruneisen_poscar_lines [OF h1 h2 h3 h4 h5 h6, unfolded sp s18 s2]
  have upd: "[''Si'', ''6'', ''0 1 1''][1 := ''18''] = [''Si'', ''18'', ''0 1 1'']"
    "[''Si'', ''6'', ''0 1 1''][1 := ''2''] = [''Si'', ''2'', ''0 1 1'']"
    by simp_all
  show ?thesis
    using h1 sp t unfolding upd by blast
qed

section \<open>Properties of get_hk_tb\<close>

lemma np_iadd_length: "np_iadd temp v = Inr t \<Longrightarrow> length t = length temp"
  by (auto simp: np_iadd_def split: if_splits)

lemma hk_loop_length: "hk_loop ex hr idxs temp = Inr t \<Longrightarrow> length t = length temp"
proof (induction idxs arbitrary: temp)
  case Nil
  then show ?case by simp
next
  case (Cons i rest)
  then show ?case
    by (auto split: sum.splits dest: np_iadd_length)
qed

lemma hk_loop_append:
  "hk_loop ex hr (xs @ ys) temp =
     (case hk_loop ex hr xs temp of Inl err \<Rightarrow> Inl err | Inr t \<Rightarrow> hk_loop ex hr ys t)"
  by (induction xs arbitrary: temp) (auto split: sum.splits)

lemma tabulate2_cong:
  "(\<And>a b. a < n \<Longrightarrow> b < m \<Longrightarrow> f a b = g a b) \<Longrightarrow> tabulate2 n m f = tabulate2 n m g"
  by (simp add: tabulate2_def)

lemma n_columns_hd: "A \<noteq> [] \<Longrightarrow> n_columns A = length (hd A)"
  by (cases A) (simp_all add: n_columns_def)

lemma n_columns_tabulate2: "n_columns (tabulate2 n n f) = n"
proof (cases "n = 0")
  case True
  then show ?thesis
    by (simp add: n_columns_def tabulate2_def)
next
  case False
  then have ne: "tabulate2 n n f \<noteq> []"
    by (simp add: tabulate2_def)
  have "hd (tabulate2 n n f) = map (\<lambda>b. f 0 b) [0..<n]"
    using False by (simp add: tabulate2_def hd_map)
  then show ?thesis
    using n_columns_hd [OF ne] by simp
qed

lemma mat_T_tabulate2: "mat_T (tabulate2 n n f) = tabulate2 n n (\<lambda>a b. f b a)"
  unfolding mat_T_def n_columns_tabulate2
  by (simp add: tabulate2_def comp_def)

lemma map2_tabulate2:
  "map2 (map2 g) (tabulate2 n m f1) (tabulate2 n m f2) = tabulate2 n m (\<lambda>a b. g (f1 a b) (f2 a b))"
  by (simp add: tabulate2_def map2_columns)

lemma map_map_tabulate2: "map (map h) (tabulate2 n m f) = tabulate2 n m (\<lambda>a b. h (f a b))"
  by (simp add: tabulate2_def comp_def)

lemma symmetrize_tabulate2:
  "map (map (\<lambda>z. z / 2)) (map2 (map2 (+)) (tabulate2 n n f) (mat_conj (mat_T (tabulate2 n n f)))) =
     tabulate2 n n (\<lambda>a b. (f a b + cnj (f b a)) / 2)"
  by (simp add: mat_conj_def mat_T_tabulate2 map_map_tabulate2 map2_tabulate2)

lemma hermitian_tabulate2:
  "tabulate2 n n (\<lambda>a b. (f a b + cnj (f b a)) / 2) =
     mat_conj (mat_T (tabulate2 n n (\<lambda>a b. (f a b + cnj (f b a)) / 2)))"
  by (simp add: mat_conj_def mat_T_tabulate2 map_map_tabulate2 add.commute)

lemma get_hk_tb_hermitian:
  assumes "get_hk_tb k w = Inr hk"
  shows "hk = mat_conj (mat_T hk)"
proof -
  from assms obtain temp' where
    hk: "hk = map (map (\<lambda>z. z / 2))
           (map2 (map2 (+)) (tabulate2 (nwan w) (nwan w) (\<lambda>a b. temp' ! (a * nwan w + b)))
              (mat_conj (mat_T (tabulate2 (nwan w) (nwan w) (\<lambda>a b. temp' ! (a * nwan w + b))))))"
    by (auto simp: get_hk_tb_def Let_def np_reshape_def split: sum.splits if_splits)
  show ?thesis
    unfolding hk symmetrize_tabulate2 by (rule hermitian_tabulate2)
qed

lemma sum_list_map2_nth:
  "length a = length b \<Longrightarrow> sum_list (map2 f a b) = (\<Sum>j < length a. f (a ! j) (b ! j))"
  by (simp add: sum_list_sum_nth atLeast0LessThan)

lemma k_dot_R_shaped:
  assumes "list_all (\<lambda>r. length r = length k) rows"
  shows "k_dot_R k rows = Inr (map (\<lambda>r. \<Sum>j < length k. k ! j * r ! j) rows)"
  unfolding k_dot_R_def
proof (rule emap_total)
  fix r
  assume "r \<in> set rows"
  with assms have "length k = length r"
    by (simp add: list_all_iff)
  then show "(case np_mul_bc k r of Inl err \<Rightarrow> Inl err | Inr p \<Rightarrow> Inr (sum_list p)) =
      Inr (\<Sum>j < length k. k ! j * r ! j)"
    by (simp add: np_mul_bc_def sum_list_map2_nth)
qed

lemma hk_loop_sum:
  assumes "m \<le> length hr" and "\<forall>i < m. length (hr ! i) = length temp"
  shows "hk_loop ex hr [0..<m] temp =
           Inr (map (\<lambda>idx. temp ! idx + (\<Sum>r < m. ex ! r * hr ! r ! idx)) [0..<length temp])"
  using assms
proof (induction m)
  case 0
  show ?case by (simp add: map_nth)
next
  case (Suc m)
  let ?t = "map (\<lambda>idx. temp ! idx + (\<Sum>r < m. ex ! r * hr ! r ! idx)) [0..<length temp]"
  have ih: "hk_loop ex hr [0..<m] temp = Inr ?t"
    using Suc by simp
  have row: "np_index hr (int m) = Inr (hr ! m)"
    using Suc.prems(1) by (simp add: np_index_def)
  have len: "length (hr ! m) = length temp"
    using Suc.prems(2) by simp
  have add: "np_iadd ?t (map (\<lambda>z. ex ! m * z) (hr ! m)) =
      Inr (map (\<lambda>idx. temp ! idx + (\<Sum>r < Suc m. ex ! r * hr ! r ! idx)) [0..<length temp])"
    using len by (auto simp: np_iadd_def intro!: nth_equalityI)
  show ?case
    by (simp add: hk_loop_append ih row add)
qed

lemma index_in_square: "a < n \<Longrightarrow> b < n \<Longrightarrow> a * n + b < n * (n::nat)"
proof -
  assume a: "a < n" and b: "b < n"
  then have "a * n + b < a * n + n" by simp
  also have "\<dots> = Suc a * n" by simp
  also have "\<dots> \<le> n * n" using a by (metis Suc_leI mult_le_mono1)
  finally show ?thesis .
qed

lemma get_hk_tb_formula:
  assumes "well_shaped k w"
  shows "get_hk_tb k w = Inr (hermitian_part_of_sum k w)"
proof -
  define n where "n = nwan w"
  define nr where "nr = length (R w)"
  define kr where "kr = map (\<lambda>r. \<Sum>j < length k. k ! j * r ! j) (R w)"
  define ex where "ex = map (\<lambda>x. exp (\<i> * 2 * complex_of_real pi * complex_of_real x)) kr"
  define temp' where "temp' = map (\<lambda>idx. (\<Sum>r < nr. ex ! r * HR w ! r ! idx)) [0..<n\<^sup>2]"
  from assms have shape: "list_all (\<lambda>r. length r = length k) (R w)"
    and le: "nr \<le> length (HR w)"
    and wide: "list_all (\<lambda>row. length row = n\<^sup>2) (take nr (HR w))"
    by (simp_all add: well_shaped_def n_def nr_def)
  have kr: "k_dot_R k (R w) = Inr kr"
    unfolding kr_def using shape by (rule k_dot_R_shaped)
  have rows: "\<forall>i < nr. length (HR w ! i) = length (replicate (n\<^sup>2) (0::complex))"
    using wide le by (simp add: list_all_length)
  have loop: "hk_loop ex (HR w) [0..<nr] (replicate (n\<^sup>2) 0) = Inr temp'"
    using hk_loop_sum [OF le rows, of ex] by (simp add: temp'_def)
  have resh: "np_reshape temp' n n = Inr (tabulate2 n n (\<lambda>a b. temp' ! (a * n + b)))"
    by (simp add: np_reshape_def power2_eq_square temp'_def)
  have entry: "temp' ! (a * n + b) = fourier_sum k w (a * n + b)" if "a < n" "b < n" for a b
  proof -
    have "a * n + b < n\<^sup>2"
      using index_in_square [OF that] by (simp add: power2_eq_square)
    then have "temp' ! (a * n + b) = (\<Sum>r < nr. ex ! r * HR w ! r ! (a * n + b))"
      by (simp add: temp'_def)
    also have "\<dots> = (\<Sum>r < nr.
        exp (2 * complex_of_real pi * \<i> * complex_of_real (\<Sum>j < length k. k ! j * R w ! r ! j))
          * HR w ! r ! (a * n + b))"
    proof (rule sum.cong)
      fix r
      assume "r \<in> {..<nr}"
      then have r: "r < length (R w)"
        by (simp add: nr_def)
      have "\<i> * 2 * complex_of_real pi = 2 * complex_of_real pi * \<i>"
        by simp
      then show "ex ! r * HR w ! r ! (a * n + b) =
          exp (2 * complex_of_real pi * \<i> * complex_of_real (\<Sum>j < length k. k ! j * R w ! r ! j))
            * HR w ! r ! (a * n + b)"
        using r by (simp only: ex_def kr_def nth_map length_map)
    qed simp
    also have "\<dots> = fourier_sum k w (a * n + b)"
      by (simp only: fourier_sum_def nr_def)
    finally show ?thesis .
  qed
  have "get_hk_tb k w =
      Inr (map (map (\<lambda>z. z / 2))
             (map2 (map2 (+)) (tabulate2 n n (\<lambda>a b. temp' ! (a * n + b)))
                (mat_conj (mat_T (tabulate2 n n (\<lambda>a b. temp' ! (a * n + b)))))))"
    by (simp add: get_hk_tb_def Let_def kr ex_def [symmetric] nr_def [symmetric]
        n_def [symmetric] loop resh del: upt_Suc)
  also have "\<dots> =
      Inr (tabulate2 n n (\<lambda>a b. (temp' ! (a * n + b) + cnj (temp' ! (b * n + a))) / 2))"
    by (simp only: symmetrize_tabulate2)
  also have "tabulate2 n n (\<lambda>a b. (temp' ! (a * n + b) + cnj (temp' ! (b * n + a))) / 2) =
      hermitian_part_of_sum k w"
    unfolding hermitian_part_of_sum_def n_def [symmetric]
    by (rule tabulate2_cong) (simp only: entry)
  finally show ?thesis .
qed

lemma example_kr: "k_dot_R [0, 0, 0] (R example_ham) = Inr [0, 0]"
  by (simp add: k_dot_R_def np_mul_bc_def example_ham_def)

lemma example_loop:
  "hk_loop [1, 1] (HR example_ham) [0..<length (R example_ham)] (replicate (2\<^sup>2) 0)
     = Inr [1, 1 + \<i>, 2, 3]"
  by (simp add: example_ham_def np_index_def np_iadd_def power2_eq_square eval_nat_numeral
      upt_conv_Cons del: upt_Suc)

lemma example_reshape:
  "np_reshape [1, 1 + \<i>, 2, 3 :: complex] 2 2 = Inr [[1, 1 + \<i>], [2, 3]]"
  by (simp add: np_reshape_def tabulate2_def eval_nat_numeral upt_conv_Cons del: upt_Suc)

lemma example_T: "mat_conj (mat_T [[1, 1 + \<i>], [2, 3 :: complex]]) = [[1, 2], [1 - \<i>, 3]]"
  by (simp add: mat_conj_def mat_T_def n_columns_def eval_nat_numeral upt_conv_Cons del: upt_Suc)

lemma example_hk:
  "get_hk_tb [0, 0, 0] example_ham = Inr [[1, (3 + \<i>) / 2], [(3 - \<i>) / 2, 3]]"
proof -
  have n: "nwan example_ham = 2"
    by (simp add: example_ham_def)
  have ex: "map (\<lambda>x. exp (\<i> * 2 * complex_of_real pi * complex_of_real x)) [0, 0] = [1, 1]"
    by simp
  have "get_hk_tb [0, 0, 0] example_ham =
      Inr (map (map (\<lambda>z. z / 2))
             (map2 (map2 (+)) [[1, 1 + \<i>], [2, 3]] [[1, 2], [1 - \<i>, 3]]))"
    unfolding get_hk_tb_def Let_def
    by (simp only: example_kr ex example_loop sum.case n example_reshape example_T)
  also have "\<dots> = Inr [[1, (3 + \<i>) / 2], [(3 - \<i>) / 2, 3]]"
    by (simp add: field_simps)
  finally show ?thesis .
qed

lemma example_well_shaped: "well_shaped [0, 0, 0] example_ham"
  by (simp add: well_shaped_def example_ham_def power2_eq_square)

lemma reshape_fourier_sum:
  "np_reshape (map (fourier_sum k w) [0..<(nwan w)\<^sup>2]) (nwan w) (nwan w) =
     Inr (tabulate2 (nwan w) (nwan w) (\<lambda>a b. fourier_sum k w (a * nwan w + b)))"
proof -
  have "tabulate2 (nwan w) (nwan w)
          (\<lambda>a b. map (fourier_sum k w) [0..<(nwan w)\<^sup>2] ! (a * nwan w + b)) =
        tabulate2 (nwan w) (nwan w) (\<lambda>a b. fourier_sum k w (a * nwan w + b))"
  proof (rule tabulate2_cong)
    fix a b
    assume "a < nwan w" "b < nwan w"
    then have "a * nwan w + b < (nwan w)\<^sup>2"
      using index_in_square [of a "nwan w" b] by (simp add: power2_eq_square)
    then show "map (fourier_sum k w) [0..<(nwan w)\<^sup>2] ! (a * nwan w + b) =
        fourier_sum k w (a * nwan w + b)"
      by simp
  qed
  then show ?thesis
    by (simp add: np_reshape_def power2_eq_square)
qed

text \<open>
  C2. Whatever matrix \<open>get_hk_tb\<close> returns equals its own conjugate transpose, for
  every wavevector and every Hamiltonian object; and on inputs whose shapes fit
  (\<open>well_shaped\<close>) it does return one.
\<close>

theorem get_hk_tb_returns_hermitian:
  "(get_hk_tb k w = Inr hk \<longrightarrow> hk = mat_conj (mat_T hk))
   \<and> (well_shaped k w \<longrightarrow> (\<exists>h. get_hk_tb k w = Inr h \<and> h = mat_conj (mat_T h)))"
proof (intro conjI impI)
  assume "get_hk_tb k w = Inr hk"
  then show "hk = mat_conj (mat_T hk)"
    by (rule get_hk_tb_hermitian)
next
  assume "well_shaped k w"
  then have r: "get_hk_tb k w = Inr (hermitian_part_of_sum k w)"
    by (rule get_hk_tb_formula)
  then have "hermitian_part_of_sum k w = mat_conj (mat_T (hermitian_part_of_sum k w))"
    by (rule get_hk_tb_hermitian)
  with r show "\<exists>h. get_hk_tb k w = Inr h \<and> h = mat_conj (mat_T h)"
    by blast
qed

theorem get_hk_tb_returns_hermitian_witness:
  "get_hk_tb [0, 0, 0] example_ham = Inr [[1, (3 + \<i>) / 2], [(3 - \<i>) / 2, 3]]
   \<and> [[1, (3 + \<i>) / 2], [(3 - \<i>) / 2, 3]] =
       mat_conj (mat_T [[1, (3 + \<i>) / 2], [(3 - \<i>) / 2, 3]])
   \<and> well_shaped [0, 0, 0] example_ham"
  using get_hk_tb_returns_hermitian [of "[0, 0, 0]" example_ham
      "[[1, (3 + \<i>) / 2], [(3 - \<i>) / 2, 3]]"] example_hk example_well_shaped
  by blast

text \<open>
  C3. On inputs whose shapes fit, the Fourier sum over all lattice vectors reshapes to
  the \<open>nwan\<close> by \<open>nwan\<close> matrix \<open>M\<close> with entries
  \<open>fourier_sum k w (a * nwan + b)\<close>, and \<open>get_hk_tb\<close> returns
  \<open>(M + M\<^sup>H) / 2\<close>, whose entries are those of \<open>hermitian_part_of_sum\<close>.
\<close>

theorem get_hk_tb_fourier_sum:
  assumes "well_shaped k w"
  shows "np_reshape (map (fourier_sum k w) [0..<(nwan w)\<^sup>2]) (nwan w) (nwan w) =
           Inr (tabulate2 (nwan w) (nwan w) (\<lambda>a b. fourier_sum k w (a * nwan w + b)))
         \<and> get_hk_tb k w =
             Inr (map (map (\<lambda>z. z / 2))
                    (map2 (map2 (+))
                       (tabulate2 (nwan w) (nwan w) (\<lambda>a b. fourier_sum k w (a * nwan w + b)))
                       (mat_conj (mat_T
                          (tabulate2 (nwan w) (nwan w) (\<lambda>a b. fourier_sum k w (a * nwan w + b)))))))
         \<and> get_hk_tb k w = Inr (hermitian_part_of_sum k w)"
proof -
  have "get_hk_tb k w = Inr (hermitian_part_of_sum k w)"
    using assms by (rule get_hk_tb_formula)
  moreover have "hermitian_part_of_sum k w =
      map (map (\<lambda>z. z / 2))
        (map2 (map2 (+))
           (tabulate2 (nwan w) (nwan w) (\<lambda>a b. fourier_sum k w (a * nwan w + b)))
           (mat_conj (mat_T
              (tabulate2 (nwan w) (nwan w) (\<lambda>a b. fourier_sum k w (a * nwan w + b))))))"
    unfolding hermitian_part_of_sum_def by (simp only: symmetrize_tabulate2)
  ultimately show ?thesis
    using reshape_fourier_sum [of k w] by simp
qed

theorem get_hk_tb_fourier_sum_witness:
  "well_shaped [0, 0, 0] example_ham
   \<and> get_hk_tb [0, 0, 0] example_ham = Inr (hermitian_part_of_sum [0, 0, 0] example_ham)
   \<and> hermitian_part_of_sum [0, 0, 0] example_ham = [[1, (3 + \<i>) / 2], [(3 - \<i>) / 2, 3]]"
proof -
  from get_hk_tb_fourier_sum [OF example_well_shaped]
  have a: "get_hk_tb [0, 0, 0] example_ham = Inr (hermitian_part_of_sum [0, 0, 0] example_ham)"
    by blast
  with example_hk have "hermitian_part_of_sum [0, 0, 0] example_ham =
      [[1, (3 + \<i>) / 2], [(3 - \<i>) / 2, 3]]"
    by simp
  with a example_well_shaped show ?thesis
    by blast
qed

end
